theory Spec2Isabelle
  imports Complex_Main "HOL-Library.Multiset"
begin

section \<open>JavaScript values used by the dashboard\<close>

text \<open>
  The dashboard (\<^verbatim>\<open>visualizations.js\<close>) reads a CSV table, coerces some columns with
  \<^verbatim>\<open>parseFloat\<close> and filters, groups and displays the rows. A JavaScript number is a
  double: it is \<^verbatim>\<open>NaN\<close>, one of the two infinities, or a finite value. Only the order of
  numbers matters below, so a finite double is modelled by the real it denotes.
  Every comparison with \<^verbatim>\<open>NaN\<close> is false.
\<close>

datatype jsnum = NaN | NegInfinity | Fin real | PosInfinity

fun js_lt :: "jsnum \<Rightarrow> jsnum \<Rightarrow> bool" where
  "js_lt NaN _ = False"
| "js_lt _ NaN = False"
| "js_lt PosInfinity _ = False"
| "js_lt _ NegInfinity = False"
| "js_lt NegInfinity _ = True"
| "js_lt _ PosInfinity = True"
| "js_lt (Fin a) (Fin b) = (a < b)"

fun js_le :: "jsnum \<Rightarrow> jsnum \<Rightarrow> bool" where
  "js_le NaN _ = False"
| "js_le _ NaN = False"
| "js_le NegInfinity _ = True"
| "js_le _ PosInfinity = True"
| "js_le PosInfinity _ = False"
| "js_le _ NegInfinity = False"
| "js_le (Fin a) (Fin b) = (a \<le> b)"

definition js_gt :: "jsnum \<Rightarrow> jsnum \<Rightarrow> bool" where
  "js_gt a b = js_lt b a"

definition js_ge :: "jsnum \<Rightarrow> jsnum \<Rightarrow> bool" where
  "js_ge a b = js_le b a"

definition isNaN :: "jsnum \<Rightarrow> bool" where
  "isNaN x = (x = NaN)"

text \<open>
  A row of the parsed table is an object whose own properties are the CSV columns, all
  with string values; \<^verbatim>\<open>d['name']\<close> is the value, or \<^verbatim>\<open>undefined\<close> (here \<open>None\<close>) when
  there is no such column. None of the column names the code reads is the name of a
  property inherited from \<^verbatim>\<open>Object.prototype\<close>.
\<close>

type_synonym row = "(string \<times> string) list"

definition get_field :: "row \<Rightarrow> string \<Rightarrow> string option" where
  "get_field d name = map_of d name"

definition keys :: "row \<Rightarrow> string list" where
  "keys d = map fst d"

text \<open>
  \<^verbatim>\<open>parseFloat\<close> is a built-in: every function below takes it as the parameter \<open>pf\<close>, its
  value on a string. Applied to \<^verbatim>\<open>undefined\<close> it reads the text "undefined" and gives
  \<^verbatim>\<open>NaN\<close>.
\<close>

definition parseFloat :: "(string \<Rightarrow> jsnum) \<Rightarrow> string option \<Rightarrow> jsnum" where
  "parseFloat pf v = (case v of None \<Rightarrow> NaN | Some s \<Rightarrow> pf s)"

section \<open>Loading the table: \<^verbatim>\<open>loadData\<close>\<close>

record response =
  ok :: bool
  status :: nat
  body :: string

datatype fetch_result = Rejected | Resolved response

datatype error =
    NetworkError
  | HttpError nat
  | MissingRequiredFields "string list"
  | TypeError
  | ContainerNotFound
  | LibraryError string

datatype console_entry = FoundInvalidDataPoints "row list" | ErrorLoadingData error

definition requiredFields :: "string list" where
  "requiredFields = [''Cost (USD/kWh)'', ''Usage Stats (avg users/day)'', ''Is24Hours'']"

definition invalidData :: "(string \<Rightarrow> jsnum) \<Rightarrow> row list \<Rightarrow> row list" where
  "invalidData pf data =
     filter (\<lambda>d.
       let cost = parseFloat pf (get_field d ''Cost (USD/kWh)'');
           usage = parseFloat pf (get_field d ''Usage Stats (avg users/day)'')
       in isNaN cost \<or> isNaN usage \<or> js_le cost (Fin 0) \<or> js_lt usage (Fin 0)) data"

text \<open>
  \<open>loadData\<close> returns what it wrote to the console (only the entries whose presence
  depends on the data) and either the error it throws or the table it returns.
  \<open>csvParse\<close> is \<^verbatim>\<open>d3.csvParse\<close>. The first statement after parsing that reads the
  first row is \<^verbatim>\<open>Object.keys(data[0])\<close>: with no row, \<^verbatim>\<open>data[0]\<close> is \<^verbatim>\<open>undefined\<close> and
  \<^verbatim>\<open>Object.keys\<close> throws a \<^verbatim>\<open>TypeError\<close>. Every error passes through the \<^verbatim>\<open>catch\<close> block,
  which logs it and throws it again.
\<close>

definition loadData ::
  "(string \<Rightarrow> jsnum) \<Rightarrow> (string \<Rightarrow> row list) \<Rightarrow> fetch_result
     \<Rightarrow> console_entry list \<times> (error + row list)" where
  "loadData pf csvParse fetched =
     (case fetched of
        Rejected \<Rightarrow> ([ErrorLoadingData NetworkError], Inl NetworkError)
      | Resolved response \<Rightarrow>
          if \<not> ok response then
            ([ErrorLoadingData (HttpError (status response))], Inl (HttpError (status response)))
          else
            let data = csvParse (body response) in
            (case data of
               [] \<Rightarrow> ([ErrorLoadingData TypeError], Inl TypeError)
             | first # _ \<Rightarrow>
                 let missingFields = filter (\<lambda>field. field \<notin> set (keys first)) requiredFields in
                 if length missingFields > 0 then
                   ([ErrorLoadingData (MissingRequiredFields missingFields)],
                    Inl (MissingRequiredFields missingFields))
                 else if length (invalidData pf data) > 0 then
                   ([FoundInvalidDataPoints (take 2 (invalidData pf data))], Inr data)
                 else ([], Inr data)))"

section \<open>The trend chart's availability filter\<close>

text \<open>
  \<^verbatim>\<open>loadTrendChart.updateChart\<close> keeps the rows that the callback of \<^verbatim>\<open>data.filter\<close>
  accepts. The selection is the value of the availability \<^verbatim>\<open>select\<close> element.
\<close>

definition trend_accepts :: "string \<Rightarrow> row \<Rightarrow> bool" where
  "trend_accepts selectedAvailability d =
     (if selectedAvailability = ''all'' then True
      else if selectedAvailability = ''24/7'' then get_field d ''Is24Hours'' = Some ''True''
      else if selectedAvailability = ''limited'' then get_field d ''Is24Hours'' = Some ''False''
      else True)"

definition trend_filteredData :: "string \<Rightarrow> row list \<Rightarrow> row list" where
  "trend_filteredData selectedAvailability data = filter (trend_accepts selectedAvailability) data"

section \<open>\<^verbatim>\<open>createTypeUsageChart\<close>: \<^verbatim>\<open>processData\<close>\<close>

text \<open>The object that \<^verbatim>\<open>processData\<close> builds from a row, and the values of the five selectors.\<close>

record usage_point =
  charger_type :: "string option"
  usage :: jsnum
  is_high_power :: bool
  cost :: jsnum
  renewable :: "string option"
  hours :: string

record usage_selection =
  selectedType :: string
  selectedPower :: string
  selectedCost :: string
  selectedRenewable :: string
  selectedRange :: string

definition usage_point_of :: "(string \<Rightarrow> jsnum) \<Rightarrow> row \<Rightarrow> usage_point" where
  "usage_point_of pf d =
     \<lparr>charger_type = get_field d ''Charger Type'',
      usage = parseFloat pf (get_field d ''Usage Stats (avg users/day)''),
      is_high_power = (get_field d ''IsHighPower'' = Some ''True''),
      cost = parseFloat pf (get_field d ''Cost (USD/kWh)''),
      renewable = get_field d ''Renewable Energy Source'',
      hours = (if get_field d ''Is24Hours'' = Some ''True'' then ''24/7'' else ''Limited'')\<rparr>"

text \<open>
  The callback of \<^verbatim>\<open>.filter\<close>, statement by statement: each \<^verbatim>\<open>if (...) return false\<close> is
  one branch, and the final \<^verbatim>\<open>switch\<close> on the usage range returns the result.
\<close>

definition usage_accepts :: "usage_selection \<Rightarrow> usage_point \<Rightarrow> bool" where
  "usage_accepts sel d =
     (if isNaN (usage d) \<or> js_lt (usage d) (Fin 0) then False
      else if selectedType sel \<noteq> ''all'' \<and> charger_type d \<noteq> Some (selectedType sel) then False
      else if selectedPower sel \<noteq> ''all'' \<and> selectedPower sel = ''high'' \<and> \<not> is_high_power d
        then False
      else if selectedPower sel \<noteq> ''all'' \<and> selectedPower sel = ''standard'' \<and> is_high_power d
        then False
      else if selectedCost sel \<noteq> ''all'' \<and> selectedCost sel = ''low''
              \<and> js_ge (cost d) (Fin 0.15) then False
      else if selectedCost sel \<noteq> ''all'' \<and> selectedCost sel = ''medium''
              \<and> (js_lt (cost d) (Fin 0.15) \<or> js_gt (cost d) (Fin 0.30)) then False
      else if selectedCost sel \<noteq> ''all'' \<and> selectedCost sel = ''high''
              \<and> js_le (cost d) (Fin 0.30) then False
      else if selectedRenewable sel \<noteq> ''all'' \<and> selectedRenewable sel = ''yes''
              \<and> renewable d \<noteq> Some ''Yes'' then False
      else if selectedRenewable sel \<noteq> ''all'' \<and> selectedRenewable sel = ''no''
              \<and> renewable d = Some ''Yes'' then False
      else if selectedRange sel = ''low'' then js_le (usage d) (Fin 10)
      else if selectedRange sel = ''medium'' then js_gt (usage d) (Fin 10) \<and> js_le (usage d) (Fin 20)
      else if selectedRange sel = ''high'' then js_gt (usage d) (Fin 20)
      else True)"

definition createTypeUsageChart_processData ::
  "(string \<Rightarrow> jsnum) \<Rightarrow> usage_selection \<Rightarrow> row list \<Rightarrow> usage_point list" where
  "createTypeUsageChart_processData pf sel data =
     filter (usage_accepts sel) (map (usage_point_of pf) data)"

text \<open>
  The predicates of the single dimensions, each one block of the callback: the base
  validity check and one predicate per selector.
\<close>

definition usage_valid :: "usage_point \<Rightarrow> bool" where
  "usage_valid d = (\<not> (isNaN (usage d) \<or> js_lt (usage d) (Fin 0)))"

definition usage_type_ok :: "usage_selection \<Rightarrow> usage_point \<Rightarrow> bool" where
  "usage_type_ok sel d = (\<not> (selectedType sel \<noteq> ''all'' \<and> charger_type d \<noteq> Some (selectedType sel)))"

definition usage_power_ok :: "usage_selection \<Rightarrow> usage_point \<Rightarrow> bool" where
  "usage_power_ok sel d =
     (if selectedPower sel \<noteq> ''all'' then
        \<not> (selectedPower sel = ''high'' \<and> \<not> is_high_power d)
        \<and> \<not> (selectedPower sel = ''standard'' \<and> is_high_power d)
      else True)"

definition usage_cost_ok :: "usage_selection \<Rightarrow> usage_point \<Rightarrow> bool" where
  "usage_cost_ok sel d =
     (if selectedCost sel \<noteq> ''all'' then
        \<not> (selectedCost sel = ''low'' \<and> js_ge (cost d) (Fin 0.15))
        \<and> \<not> (selectedCost sel = ''medium'' \<and> (js_lt (cost d) (Fin 0.15) \<or> js_gt (cost d) (Fin 0.30)))
        \<and> \<not> (selectedCost sel = ''high'' \<and> js_le (cost d) (Fin 0.30))
      else True)"

definition usage_renewable_ok :: "usage_selection \<Rightarrow> usage_point \<Rightarrow> bool" where
  "usage_renewable_ok sel d =
     (if selectedRenewable sel \<noteq> ''all'' then
        \<not> (selectedRenewable sel = ''yes'' \<and> renewable d \<noteq> Some ''Yes'')
        \<and> \<not> (selectedRenewable sel = ''no'' \<and> renewable d = Some ''Yes'')
      else True)"

definition usage_range_ok :: "usage_selection \<Rightarrow> usage_point \<Rightarrow> bool" where
  "usage_range_ok sel d =
     (if selectedRange sel = ''low'' then js_le (usage d) (Fin 10)
      else if selectedRange sel = ''medium'' then js_gt (usage d) (Fin 10) \<and> js_le (usage d) (Fin 20)
      else if selectedRange sel = ''high'' then js_gt (usage d) (Fin 20)
      else True)"

definition usage_dimensions :: "usage_selection \<Rightarrow> (usage_point \<Rightarrow> bool) list" where
  "usage_dimensions sel =
     [usage_valid, usage_type_ok sel, usage_power_ok sel, usage_cost_ok sel,
      usage_renewable_ok sel, usage_range_ok sel]"

section \<open>\<^verbatim>\<open>createCostRatingChart\<close>: \<^verbatim>\<open>processData\<close>\<close>

record rating_point =
  cr_charger_type :: "string option"
  cr_cost :: jsnum
  rating :: jsnum
  is24Hours :: bool

record rating_selection =
  cr_selectedType :: string
  selectedAvailability :: string

definition rating_point_of :: "(string \<Rightarrow> jsnum) \<Rightarrow> row \<Rightarrow> rating_point" where
  "rating_point_of pf d =
     \<lparr>cr_charger_type = get_field d ''Charger Type'',
      cr_cost = parseFloat pf (get_field d ''Cost (USD/kWh)''),
      rating = parseFloat pf (get_field d ''Reviews (Rating)''),
      is24Hours = (get_field d ''Is24Hours'' = Some ''True'')\<rparr>"

definition rating_accepts :: "rating_selection \<Rightarrow> rating_point \<Rightarrow> bool" where
  "rating_accepts sel d =
     (if isNaN (cr_cost d) \<or> isNaN (rating d) \<or> js_le (cr_cost d) (Fin 0) \<or> js_lt (rating d) (Fin 0)
        then False
      else if cr_selectedType sel \<noteq> ''all'' \<and> cr_charger_type d \<noteq> Some (cr_selectedType sel)
        then False
      else if selectedAvailability sel = ''24h'' \<and> \<not> is24Hours d then False
      else if selectedAvailability sel = ''limited'' \<and> is24Hours d then False
      else True)"

definition createCostRatingChart_processData ::
  "(string \<Rightarrow> jsnum) \<Rightarrow> rating_selection \<Rightarrow> row list \<Rightarrow> rating_point list" where
  "createCostRatingChart_processData pf sel data =
     filter (rating_accepts sel) (map (rating_point_of pf) data)"

definition rating_valid :: "rating_point \<Rightarrow> bool" where
  "rating_valid d =
     (\<not> (isNaN (cr_cost d) \<or> isNaN (rating d) \<or> js_le (cr_cost d) (Fin 0) \<or> js_lt (rating d) (Fin 0)))"

definition rating_type_ok :: "rating_selection \<Rightarrow> rating_point \<Rightarrow> bool" where
  "rating_type_ok sel d =
     (\<not> (cr_selectedType sel \<noteq> ''all'' \<and> cr_charger_type d \<noteq> Some (cr_selectedType sel)))"

definition rating_availability_ok :: "rating_selection \<Rightarrow> rating_point \<Rightarrow> bool" where
  "rating_availability_ok sel d =
     (\<not> (selectedAvailability sel = ''24h'' \<and> \<not> is24Hours d)
      \<and> \<not> (selectedAvailability sel = ''limited'' \<and> is24Hours d))"

definition rating_dimensions :: "rating_selection \<Rightarrow> (rating_point \<Rightarrow> bool) list" where
  "rating_dimensions sel = [rating_valid, rating_type_ok sel, rating_availability_ok sel]"

section \<open>Property lookup on an object literal\<close>

text \<open>
  \<^verbatim>\<open>{...}[key]\<close> on an object literal finds an own property, or else a property that
  every object literal inherits from \<^verbatim>\<open>Object.prototype\<close> (a function such as
  \<^verbatim>\<open>constructor\<close> or \<^verbatim>\<open>toString\<close>, or the prototype object itself for \<^verbatim>\<open>__proto__\<close>), or
  else \<^verbatim>\<open>undefined\<close>. The key is converted to a string: \<^verbatim>\<open>undefined\<close> is looked up as
  the name "undefined".
\<close>

datatype 'v looked_up = Own 'v | Inherited string | Undefined

definition object_prototype_names :: "string list" where
  "object_prototype_names =
     [''constructor'', ''hasOwnProperty'', ''isPrototypeOf'', ''propertyIsEnumerable'',
      ''toLocaleString'', ''toString'', ''valueOf'', ''__proto__'',
      ''__defineGetter__'', ''__defineSetter__'', ''__lookupGetter__'', ''__lookupSetter__'']"

definition literal_get :: "(string \<times> 'v) list \<Rightarrow> string option \<Rightarrow> 'v looked_up" where
  "literal_get properties key =
     (let name = (case key of None \<Rightarrow> ''undefined'' | Some s \<Rightarrow> s) in
      case map_of properties name of
        Some v \<Rightarrow> Own v
      | None \<Rightarrow> if name \<in> set object_prototype_names then Inherited name else Undefined)"

text \<open>
  \<^verbatim>\<open>a || b\<close> is \<^verbatim>\<open>a\<close> when \<^verbatim>\<open>a\<close> is truthy and \<^verbatim>\<open>b\<close> otherwise. Functions and objects
  are truthy, \<^verbatim>\<open>undefined\<close> is not; a string is truthy unless empty, a number unless it
  is zero or \<^verbatim>\<open>NaN\<close>.
\<close>

definition or_else :: "('v \<Rightarrow> bool) \<Rightarrow> 'v looked_up \<Rightarrow> 'v \<Rightarrow> 'v looked_up" where
  "or_else truthy a b =
     (case a of
        Own v \<Rightarrow> if truthy v then Own v else Own b
      | Inherited name \<Rightarrow> Inherited name
      | Undefined \<Rightarrow> Own b)"

definition truthy_string :: "string \<Rightarrow> bool" where
  "truthy_string s = (s \<noteq> [])"

definition truthy_number :: "jsnum \<Rightarrow> bool" where
  "truthy_number n = (n \<noteq> NaN \<and> n \<noteq> Fin 0)"

text \<open>\<^verbatim>\<open>isNaN(v)\<close> converts \<^verbatim>\<open>v\<close> to a number first: a function, an object and
  \<^verbatim>\<open>undefined\<close> all convert to \<^verbatim>\<open>NaN\<close>.\<close>

definition isNaN_value :: "jsnum looked_up \<Rightarrow> bool" where
  "isNaN_value v = (case v of Own n \<Rightarrow> isNaN n | Inherited name \<Rightarrow> True | Undefined \<Rightarrow> True)"

section \<open>\<^verbatim>\<open>createMap\<close>: the colour of a marker\<close>

definition marker_color :: "row \<Rightarrow> string looked_up" where
  "marker_color d =
     or_else truthy_string
       (literal_get [(''L1'', ''#FF6B6B''), (''L2'', ''#4ECDC4''), (''DC'', ''#45B7D1'')]
          (get_field d ''Charger Type''))
       ''#999''"

section \<open>\<^verbatim>\<open>createBoxplotComparison\<close> and \<^verbatim>\<open>createOperatorAnalysis\<close>: preparing the data\<close>

record feature =
  feature_value :: string
  feature_text :: string
  feature_field :: string
  feature_transform :: "(string option \<Rightarrow> jsnum looked_up) option"

definition maintenance_transform :: "string option \<Rightarrow> jsnum looked_up" where
  "maintenance_transform v =
     or_else truthy_number
       (literal_get [(''Monthly'', Fin 3), (''Quarterly'', Fin 2), (''Annually'', Fin 1)] v)
       (Fin 0)"

definition features :: "feature list" where
  "features =
     [\<lparr>feature_value = ''rating'', feature_text = ''User Rating'',
        feature_field = ''Reviews (Rating)'', feature_transform = None\<rparr>,
      \<lparr>feature_value = ''usage'', feature_text = ''Daily Users'',
        feature_field = ''Usage Stats (avg users/day)'', feature_transform = None\<rparr>,
      \<lparr>feature_value = ''capacity'', feature_text = ''Charging Capacity'',
        feature_field = ''Charging Capacity (kW)'', feature_transform = None\<rparr>,
      \<lparr>feature_value = ''maintenance'', feature_text = ''Maintenance Score'',
        feature_field = ''Maintenance Frequency'',
        feature_transform = Some maintenance_transform\<rparr>]"

record boxplot_point =
  bp_type :: "string option"
  bp_value :: "jsnum looked_up"
  costRange :: "string option"
  bp_operator :: "string option"
  bp_renewable :: "string option"
  connectors :: "string option"

definition boxplot_point_of :: "(string \<Rightarrow> jsnum) \<Rightarrow> feature \<Rightarrow> row \<Rightarrow> boxplot_point" where
  "boxplot_point_of pf feature d =
     \<lparr>bp_type = get_field d ''Charger Type'',
      bp_value = (case feature_transform feature of
                    Some transform \<Rightarrow> transform (get_field d (feature_field feature))
                  | None \<Rightarrow> Own (parseFloat pf (get_field d (feature_field feature)))),
      costRange = get_field d ''Cost_Range'',
      bp_operator = get_field d ''Station Operator'',
      bp_renewable = get_field d ''Renewable Energy Source'',
      connectors = get_field d ''Connector Types''\<rparr>"

text \<open>
  \<^verbatim>\<open>features.find\<close> gives \<^verbatim>\<open>undefined\<close> when no feature has the selected value, and
  reading \<^verbatim>\<open>feature.transform\<close> then throws a \<^verbatim>\<open>TypeError\<close>.
\<close>

definition createBoxplotComparison_processedData ::
  "(string \<Rightarrow> jsnum) \<Rightarrow> string \<Rightarrow> row list \<Rightarrow> error + boxplot_point list" where
  "createBoxplotComparison_processedData pf selectedFeature data =
     (case find (\<lambda>f. feature_value f = selectedFeature) features of
        None \<Rightarrow> Inl TypeError
      | Some feature \<Rightarrow>
          Inr (filter (\<lambda>d. \<not> isNaN_value (bp_value d)) (map (boxplot_point_of pf feature) data)))"

record operator_point =
  op_operator :: "string option"
  op_rating :: jsnum
  op_usage :: jsnum
  op_renewable :: "string option"
  chargerType :: "string option"
  capacity :: jsnum

definition operator_point_of :: "(string \<Rightarrow> jsnum) \<Rightarrow> row \<Rightarrow> operator_point" where
  "operator_point_of pf d =
     \<lparr>op_operator = get_field d ''Station Operator'',
      op_rating = parseFloat pf (get_field d ''Reviews (Rating)''),
      op_usage = parseFloat pf (get_field d ''Usage Stats (avg users/day)''),
      op_renewable = get_field d ''Renewable Energy Source'',
      chargerType = get_field d ''Charger Type'',
      capacity = parseFloat pf (get_field d ''Charging Capacity (kW)'')\<rparr>"

definition createOperatorAnalysis_processedData ::
  "(string \<Rightarrow> jsnum) \<Rightarrow> row list \<Rightarrow> operator_point list" where
  "createOperatorAnalysis_processedData pf data =
     filter (\<lambda>d. \<not> isNaN (op_rating d) \<and> \<not> isNaN (op_usage d) \<and> \<not> isNaN (capacity d))
       (map (operator_point_of pf) data)"

section \<open>Grouping and the statistics shown under a chart\<close>

text \<open>
  \<^verbatim>\<open>d3.rollup(values, reduce, key)\<close> groups the values by key, the keys in the order of
  their first occurrence, and reduces each group. A group is never empty.
\<close>

definition group_keys :: "'k list \<Rightarrow> 'k list" where
  "group_keys ks = fold (\<lambda>k seen. if k \<in> set seen then seen else seen @ [k]) ks []"

definition rollup :: "'a list \<Rightarrow> ('a list \<Rightarrow> 'b) \<Rightarrow> ('a \<Rightarrow> 'k) \<Rightarrow> ('k \<times> 'b) list" where
  "rollup values reduce key =
     map (\<lambda>k. (k, reduce (filter (\<lambda>x. key x = k) values))) (group_keys (map key values))"

text \<open>
  The statistics functions of D3 are parameters: \<^verbatim>\<open>d3.mean\<close>, \<^verbatim>\<open>d3.median\<close>,
  \<^verbatim>\<open>d3.quantile\<close> (of the values sorted with \<^verbatim>\<open>d3.ascending\<close>) and \<^verbatim>\<open>d3.correlation\<close>.
\<close>

record d3 =
  d3_mean :: "jsnum list \<Rightarrow> jsnum"
  d3_median :: "jsnum list \<Rightarrow> jsnum"
  d3_quantile :: "jsnum list \<Rightarrow> real \<Rightarrow> jsnum"
  d3_correlation :: "jsnum list \<Rightarrow> jsnum list \<Rightarrow> jsnum"

text \<open>
  The children of a chart's container element. A statistics block is a list of lines;
  a line of group statistics shows the group's key, its aggregates (each printed with
  \<^verbatim>\<open>toFixed\<close>) and its count.
\<close>

datatype stats_line = GroupHeading "string option" | GroupStats "string option" "jsnum list" nat

datatype element =
    FilterContainer
  | ErrorParagraph string
  | ChartContainer string nat
  | StatsInfo "stats_line list"
  | LeafletMap "string looked_up list"
  | StationCount nat
  | TrendSvg nat
  | VegaView string
  | ChartError string error

fun line_aggregates :: "stats_line \<Rightarrow> jsnum list" where
  "line_aggregates (GroupHeading k) = []"
| "line_aggregates (GroupStats k ns c) = ns"

fun element_aggregates :: "element \<Rightarrow> jsnum list" where
  "element_aggregates (StatsInfo ls) = concat (map line_aggregates ls)"
| "element_aggregates e = []"

definition displayed_aggregates :: "element list \<Rightarrow> jsnum list" where
  "displayed_aggregates container = concat (map element_aggregates container)"

section \<open>\<^verbatim>\<open>updateChart\<close> of the three charts with statistics\<close>

text \<open>
  Each \<^verbatim>\<open>updateChart\<close> maps the children of the chart's container to the children after
  the update, once the promise of \<^verbatim>\<open>vegaEmbed\<close> has resolved and its \<^verbatim>\<open>then\<close> callback has
  run. \<^verbatim>\<open>ChartContainer id n\<close> is the \<^verbatim>\<open>div\<close> with that id holding the chart embedded for
  \<open>n\<close> data values. Assigning \<^verbatim>\<open>innerHTML\<close> replaces all children.
\<close>

definition createTypeUsageChart_updateChart ::
  "d3 \<Rightarrow> (string \<Rightarrow> jsnum) \<Rightarrow> usage_selection \<Rightarrow> row list \<Rightarrow> element list \<Rightarrow> element list" where
  "createTypeUsageChart_updateChart lib pf sel data container =
     (let processedData = createTypeUsageChart_processData pf sel data;
          embedded = container @ [ChartContainer ''type-usage-chart'' (length processedData)]
      in if length processedData > 0 then
           embedded @
           [StatsInfo
              (map (\<lambda>(type, v).
                      GroupStats type [d3_mean lib (map usage v), d3_median lib (map usage v)] (length v))
                 (rollup processedData (\<lambda>v. v) charger_type))]
         else embedded)"

definition createCostRatingChart_updateChart ::
  "d3 \<Rightarrow> (string \<Rightarrow> jsnum) \<Rightarrow> rating_selection \<Rightarrow> row list \<Rightarrow> element list \<Rightarrow> element list" where
  "createCostRatingChart_updateChart lib pf sel data container =
     (let processedData = createCostRatingChart_processData pf sel data
      in if length processedData = 0 then
           [ErrorParagraph ''No data available for selected filters'']
         else
           container @
           [ChartContainer ''cost-rating-chart'' (length processedData),
            StatsInfo
              (map (\<lambda>(type, v).
                      GroupStats type
                        [d3_mean lib (map cr_cost v), d3_mean lib (map rating v),
                         (let correlation = d3_correlation lib (map cr_cost v) (map rating v)
                          in if truthy_number correlation then correlation else Fin 0)]
                        (length v))
                 (rollup processedData (\<lambda>v. v) cr_charger_type))])"

definition number_of :: "jsnum looked_up \<Rightarrow> jsnum" where
  "number_of v = (case v of Own n \<Rightarrow> n | Inherited name \<Rightarrow> NaN | Undefined \<Rightarrow> NaN)"

definition createBoxplotComparison_updateChart ::
  "d3 \<Rightarrow> (string \<Rightarrow> jsnum) \<Rightarrow> string \<Rightarrow> row list \<Rightarrow> element list \<Rightarrow> error + element list" where
  "createBoxplotComparison_updateChart lib pf selectedFeature data container =
     (case createBoxplotComparison_processedData pf selectedFeature data of
        Inl e \<Rightarrow> Inl e
      | Inr processedData \<Rightarrow>
          Inr [FilterContainer,
               ChartContainer ''boxplot-chart'' (length processedData),
               StatsInfo
                 (concat
                    (map (\<lambda>(type, costRanges).
                            GroupHeading type #
                            map (\<lambda>(range, v).
                                   GroupStats range
                                     [d3_mean lib (map (number_of \<circ> bp_value) v),
                                      d3_median lib (map (number_of \<circ> bp_value) v),
                                      d3_quantile lib (map (number_of \<circ> bp_value) v) 0.25,
                                      d3_quantile lib (map (number_of \<circ> bp_value) v) 0.75]
                                     (length v))
                              costRanges)
                       (rollup processedData
                          (\<lambda>v. rollup v (\<lambda>v. v) costRange) bp_type)))])"

section \<open>The page: containers, chart functions and \<^verbatim>\<open>initialize\<close>\<close>

text \<open>
  The document maps the id of a container element to its children, and to \<open>None\<close> when
  the page has no element with that id (\<^verbatim>\<open>document.getElementById\<close> then gives \<^verbatim>\<open>null\<close>).
  The trace records, in order, the calls of the chart functions, the fetches and what
  each chart function did.
\<close>

datatype chart =
  MapChart | TrendChart | HeatmapChart | CostRatingChart | TypeUsageChart | BoxplotChart
  | OperatorChart

datatype event =
  Call chart | FetchCsv | FetchHeatmapSpec | Render chart | ShowError chart | ConsoleError error

record page =
  document :: "string \<Rightarrow> element list option"
  trace :: "event list"

text \<open>
  What the code does not decide: the built-ins and libraries (\<^verbatim>\<open>parseFloat\<close>,
  \<^verbatim>\<open>d3.csvParse\<close>, the D3 statistics), the outcome of each fetch of the CSV (the first,
  the second, ...) and of the heatmap specification, and for each chart the exception, if
  any, that a library call throws (or an awaited promise rejects with) while the chart
  is set up.
\<close>

record world =
  parse_float :: "string \<Rightarrow> jsnum"
  csv_parse :: "string \<Rightarrow> row list"
  statistics :: d3
  csv_fetch :: "nat \<Rightarrow> fetch_result"
  heatmap_spec_fetch :: fetch_result
  library_error :: "chart \<Rightarrow> error option"

definition csv_fetches :: "event list \<Rightarrow> nat" where
  "csv_fetches t = length (filter (\<lambda>e. e = FetchCsv) t)"

definition await_loadData :: "world \<Rightarrow> page \<Rightarrow> page \<times> (error + row list)" where
  "await_loadData w p =
     (p\<lparr>trace := trace p @ [FetchCsv]\<rparr>,
      snd (loadData (parse_float w) (csv_parse w) (csv_fetch w (csv_fetches (trace p)))))"

definition rendered :: "chart \<Rightarrow> string \<Rightarrow> element list \<Rightarrow> page \<Rightarrow> page" where
  "rendered c container_id children p =
     p\<lparr>document := (document p)(container_id \<mapsto> children), trace := trace p @ [Render c]\<rparr>"

text \<open>
  The \<^verbatim>\<open>catch\<close> block of a chart function:
  \<^verbatim>\<open>document.getElementById(id).innerHTML = `<p class="error">...</p>`\<close>. When the page has
  no such element, assigning a property of \<^verbatim>\<open>null\<close> throws a \<^verbatim>\<open>TypeError\<close>, which leaves
  the chart function.
\<close>

definition catch_block :: "chart \<Rightarrow> string \<Rightarrow> string \<Rightarrow> error \<Rightarrow> page \<Rightarrow> page \<times> error option" where
  "catch_block c container_id prefix e p =
     (case document p container_id of
        None \<Rightarrow> (p, Some TypeError)
      | Some children \<Rightarrow>
          (p\<lparr>document := (document p)(container_id \<mapsto> [ChartError prefix e]),
             trace := trace p @ [ShowError c]\<rparr>, None))"

definition createMap :: "world \<Rightarrow> row list \<Rightarrow> page \<Rightarrow> page \<times> error option" where
  "createMap w data p0 =
     (let p = p0\<lparr>trace := trace p0 @ [Call MapChart]\<rparr> in
      case document p ''map-viz'' of
        None \<Rightarrow>
          catch_block MapChart ''map-viz'' ''Error creating map: ''
            (LibraryError ''Map container not found.'') p
      | Some children \<Rightarrow>
          (case library_error w MapChart of
             Some e \<Rightarrow> catch_block MapChart ''map-viz'' ''Error creating map: '' e p
           | None \<Rightarrow>
               (rendered MapChart ''map-viz''
                  (children @ [LeafletMap (map marker_color data), StationCount (length data)]) p,
                None)))"

definition loadTrendChart :: "world \<Rightarrow> page \<Rightarrow> page \<times> error option" where
  "loadTrendChart w p0 =
     (let (p, loaded) = await_loadData w (p0\<lparr>trace := trace p0 @ [Call TrendChart]\<rparr>) in
      case loaded of
        Inl e \<Rightarrow> catch_block TrendChart ''trend-viz'' ''Error loading trend chart: '' e p
      | Inr data \<Rightarrow>
          (case document p ''trend-viz'' of
             None \<Rightarrow> catch_block TrendChart ''trend-viz'' ''Error loading trend chart: '' TypeError p
           | Some children \<Rightarrow>
               (case library_error w TrendChart of
                  Some e \<Rightarrow> catch_block TrendChart ''trend-viz'' ''Error loading trend chart: '' e p
                | None \<Rightarrow>
                    (rendered TrendChart ''trend-viz''
                       (children @ [FilterContainer, TrendSvg (length (trend_filteredData ''all'' data))])
                       p,
                     None))))"

definition createHeatmap :: "world \<Rightarrow> page \<Rightarrow> page \<times> error option" where
  "createHeatmap w p0 =
     (let p = p0\<lparr>trace := trace p0 @ [Call HeatmapChart, FetchHeatmapSpec]\<rparr> in
      case heatmap_spec_fetch w of
        Rejected \<Rightarrow> catch_block HeatmapChart ''heatmap-viz'' ''Error creating heatmap: '' NetworkError p
      | Resolved response \<Rightarrow>
          if \<not> ok response then
            catch_block HeatmapChart ''heatmap-viz'' ''Error creating heatmap: ''
              (HttpError (status response)) p
          else
            (case document p ''heatmap-viz'' of
               None \<Rightarrow>
                 catch_block HeatmapChart ''heatmap-viz'' ''Error creating heatmap: ''
                   (LibraryError ''#heatmap-viz does not exist'') p
             | Some children \<Rightarrow>
                 (case library_error w HeatmapChart of
                    Some e \<Rightarrow> catch_block HeatmapChart ''heatmap-viz'' ''Error creating heatmap: '' e p
                  | None \<Rightarrow> (rendered HeatmapChart ''heatmap-viz'' [VegaView (body response)] p, None))))"

definition createCostRatingChart :: "world \<Rightarrow> row list \<Rightarrow> page \<Rightarrow> page \<times> error option" where
  "createCostRatingChart w data p0 =
     (let p = p0\<lparr>trace := trace p0 @ [Call CostRatingChart]\<rparr> in
      case document p ''cost-rating-viz'' of
        None \<Rightarrow>
          catch_block CostRatingChart ''cost-rating-viz'' ''Error creating chart: '' ContainerNotFound p
      | Some children \<Rightarrow>
          (case library_error w CostRatingChart of
             Some e \<Rightarrow> catch_block CostRatingChart ''cost-rating-viz'' ''Error creating chart: '' e p
           | None \<Rightarrow>
               (rendered CostRatingChart ''cost-rating-viz''
                  (createCostRatingChart_updateChart (statistics w) (parse_float w)
                     \<lparr>cr_selectedType = ''all'', selectedAvailability = ''all''\<rparr> data
                     (children @ [FilterContainer])) p,
                None)))"

definition createTypeUsageChart :: "world \<Rightarrow> row list \<Rightarrow> page \<Rightarrow> page \<times> error option" where
  "createTypeUsageChart w data p0 =
     (let p = p0\<lparr>trace := trace p0 @ [Call TypeUsageChart]\<rparr> in
      case document p ''type-usage-viz'' of
        None \<Rightarrow>
          catch_block TypeUsageChart ''type-usage-viz'' ''Error creating chart: '' ContainerNotFound p
      | Some children \<Rightarrow>
          (case library_error w TypeUsageChart of
             Some e \<Rightarrow> catch_block TypeUsageChart ''type-usage-viz'' ''Error creating chart: '' e p
           | None \<Rightarrow>
               (rendered TypeUsageChart ''type-usage-viz''
                  (createTypeUsageChart_updateChart (statistics w) (parse_float w)
                     \<lparr>selectedType = ''all'', selectedPower = ''all'', selectedCost = ''all'',
                      selectedRenewable = ''all'', selectedRange = ''all''\<rparr> data
                     (children @ [FilterContainer])) p,
                None)))"

definition createBoxplotComparison :: "world \<Rightarrow> row list \<Rightarrow> page \<Rightarrow> page \<times> error option" where
  "createBoxplotComparison w data p0 =
     (let p = p0\<lparr>trace := trace p0 @ [Call BoxplotChart]\<rparr> in
      case document p ''boxplot-viz'' of
        None \<Rightarrow>
          catch_block BoxplotChart ''boxplot-viz'' ''Error creating boxplot comparison: ''
            ContainerNotFound p
      | Some children \<Rightarrow>
          (case library_error w BoxplotChart of
             Some e \<Rightarrow>
               catch_block BoxplotChart ''boxplot-viz'' ''Error creating boxplot comparison: '' e p
           | None \<Rightarrow>
               (case createBoxplotComparison_updateChart (statistics w) (parse_float w) ''rating''
                       data (children @ [FilterContainer]) of
                  Inl e \<Rightarrow>
                    catch_block BoxplotChart ''boxplot-viz'' ''Error creating boxplot comparison: '' e p
                | Inr children' \<Rightarrow> (rendered BoxplotChart ''boxplot-viz'' children' p, None))))"

definition createOperatorAnalysis_stats :: "d3 \<Rightarrow> operator_point list \<Rightarrow> stats_line list" where
  "createOperatorAnalysis_stats lib processedData =
     map (\<lambda>(operator, v).
            let renewableCount = length (filter (\<lambda>d. op_renewable d = Some ''Yes'') v);
                totalCount = length v
            in GroupStats operator
                 [d3_mean lib (map op_rating v), d3_mean lib (map op_usage v),
                  Fin (real renewableCount), Fin (real renewableCount / real totalCount * 100),
                  d3_mean lib (map capacity v)]
                 totalCount)
       (rollup processedData (\<lambda>v. v) op_operator)"

definition createOperatorAnalysis :: "world \<Rightarrow> row list \<Rightarrow> page \<Rightarrow> page \<times> error option" where
  "createOperatorAnalysis w data p0 =
     (let p = p0\<lparr>trace := trace p0 @ [Call OperatorChart]\<rparr> in
      case document p ''operator-viz'' of
        None \<Rightarrow>
          catch_block OperatorChart ''operator-viz'' ''Error creating operator analysis: ''
            ContainerNotFound p
      | Some children \<Rightarrow>
          (case library_error w OperatorChart of
             Some e \<Rightarrow>
               catch_block OperatorChart ''operator-viz'' ''Error creating operator analysis: '' e p
           | None \<Rightarrow>
               (rendered OperatorChart ''operator-viz''
                  [VegaView ''operator-analysis'',
                   StatsInfo (createOperatorAnalysis_stats (statistics w)
                     (createOperatorAnalysis_processedData (parse_float w) data))] p,
                None)))"

text \<open>
  \<^verbatim>\<open>initialize\<close> runs the chart functions one after the other inside one \<^verbatim>\<open>try\<close>: an
  exception that leaves a chart function ends the sequence and is logged by the \<^verbatim>\<open>catch\<close>
  block of \<^verbatim>\<open>initialize\<close>.
\<close>

fun run_charts :: "(page \<Rightarrow> page \<times> error option) list \<Rightarrow> page \<Rightarrow> page" where
  "run_charts [] p = p"
| "run_charts (f # fs) p =
     (case f p of
        (p', None) \<Rightarrow> run_charts fs p'
      | (p', Some e) \<Rightarrow> p'\<lparr>trace := trace p' @ [ConsoleError e]\<rparr>)"

definition initialize :: "world \<Rightarrow> page \<Rightarrow> page" where
  "initialize w p0 =
     (let (p, loaded) = await_loadData w p0 in
      case loaded of
        Inl e \<Rightarrow> p\<lparr>trace := trace p @ [ConsoleError e]\<rparr>
      | Inr data \<Rightarrow>
          run_charts
            [createMap w data, loadTrendChart w, createHeatmap w,
             createCostRatingChart w data, createTypeUsageChart w data,
             createBoxplotComparison w data, createOperatorAnalysis w data] p)"

text \<open>The containers of \<^verbatim>\<open>index.html\<close>, all empty: it has no element with id
  \<^verbatim>\<open>operator-viz\<close>.\<close>

definition index_html :: "string \<Rightarrow> element list option" where
  "index_html =
     [''map-viz'' \<mapsto> [], ''trend-viz'' \<mapsto> [], ''heatmap-viz'' \<mapsto> [], ''boxplot-viz'' \<mapsto> [],
      ''type-usage-viz'' \<mapsto> [], ''cost-rating-viz'' \<mapsto> []]"

text \<open>
  The values \<^verbatim>\<open>parseFloat\<close> takes on the strings of a concrete table, given as a list;
  on every other string of that table it gives \<^verbatim>\<open>NaN\<close>.
\<close>

definition parse_table :: "(string \<times> jsnum) list \<Rightarrow> string \<Rightarrow> jsnum" where
  "parse_table t s = (case map_of t s of Some n \<Rightarrow> n | None \<Rightarrow> NaN)"

fun called :: "event list \<Rightarrow> chart list" where
  "called [] = []"
| "called (Call c # t) = c # called t"
| "called (e # t) = called t"

definition container_ids :: "string list" where
  "container_ids =
     [''map-viz'', ''trend-viz'', ''heatmap-viz'', ''cost-rating-viz'', ''type-usage-viz'',
      ''boxplot-viz'', ''operator-viz'']"

text \<open>A small table and a world in which every fetch and every library call succeeds, for
  the concrete runs below.\<close>

definition sample_table :: "row list" where
  "sample_table =
     [[(''Charger Type'', ''L2''), (''Usage Stats (avg users/day)'', ''5''),
       (''Cost (USD/kWh)'', ''0.2''), (''Reviews (Rating)'', ''4.5''), (''Is24Hours'', ''True'')]]"

definition sample_world :: world where
  "sample_world =
     \<lparr>parse_float = parse_table [(''5'', Fin 5), (''0.2'', Fin 0.2), (''4.5'', Fin 4.5)],
      csv_parse = (\<lambda>csvText. sample_table),
      statistics = \<lparr>d3_mean = (\<lambda>xs. Fin 1), d3_median = (\<lambda>xs. Fin 1),
        d3_quantile = (\<lambda>xs q. Fin 1), d3_correlation = (\<lambda>xs ys. NaN)\<rparr>,
      csv_fetch = (\<lambda>n. Resolved \<lparr>ok = True, status = 200, body = ''csv''\<rparr>),
      heatmap_spec_fetch = Resolved \<lparr>ok = True, status = 200, body = ''spec''\<rparr>,
      library_error = (\<lambda>c. None)\<rparr>"

section \<open>The heap: the loaded table and the objects the charts build\<close>

text \<open>
  To say which objects an update can change, the objects live in a heap: a list of
  objects, an object's address being its index, and a new object being appended. The
  loaded table is an array object holding the addresses of its row objects. An object is
  a row of the table, one of the objects that a \<^verbatim>\<open>.map\<close> callback builds, or an array of
  addresses. Reading a row at an address that holds no row gives an object without
  properties.
\<close>

datatype jsobject =
    RowObject row
  | UsagePoint usage_point
  | RatingPoint rating_point
  | BoxplotPoint boxplot_point
  | OperatorPoint operator_point
  | ArrayObject "nat list"

type_synonym heap = "jsobject list"

definition object_at :: "heap \<Rightarrow> nat \<Rightarrow> jsobject option" where
  "object_at h a = (if a < length h then Some (h ! a) else None)"

definition array_elements :: "heap \<Rightarrow> nat \<Rightarrow> nat list" where
  "array_elements h a = (case object_at h a of Some (ArrayObject xs) \<Rightarrow> xs | _ \<Rightarrow> [])"

definition row_at :: "heap \<Rightarrow> nat \<Rightarrow> row" where
  "row_at h a = (case object_at h a of Some (RowObject d) \<Rightarrow> d | _ \<Rightarrow> [])"

text \<open>
  \<^verbatim>\<open>array.map(f)\<close> builds one new object per element and a new array of them;
  \<^verbatim>\<open>array.filter(P)\<close> builds a new array that holds the addresses of the elements it keeps,
  the same objects as in the source array. Neither writes to an existing object.
\<close>

definition array_map :: "(nat \<Rightarrow> jsobject) \<Rightarrow> nat \<Rightarrow> heap \<Rightarrow> nat \<times> heap" where
  "array_map f a h =
     (let xs = array_elements h a;
          h1 = h @ map f xs
      in (length h1, h1 @ [ArrayObject [length h ..< length h + length xs]]))"

definition array_filter :: "(nat \<Rightarrow> bool) \<Rightarrow> nat \<Rightarrow> heap \<Rightarrow> nat \<times> heap" where
  "array_filter P a h = (length h, h @ [ArrayObject (filter P (array_elements h a))])"

definition handed_to_library :: "(jsobject \<Rightarrow> jsobject) \<Rightarrow> nat \<Rightarrow> heap \<Rightarrow> heap" where
  "handed_to_library touch a h =
     fold (\<lambda>x h'. if x < length h' then h'[x := touch (h' ! x)] else h') (a # array_elements h a) h"

text \<open>
  \<^verbatim>\<open>updateChart\<close> on the heap: each returns the address of the array it has built and
  the new heap. The array given to \<^verbatim>\<open>vegaEmbed\<close> as \<^verbatim>\<open>data: { values: processedData }\<close> is
  handed to the library, which may change it and every object in it in any way
  (\<open>touch\<close>). The trend chart passes its filtered array to \<^verbatim>\<open>d3.rollup\<close>, which only
  reads; \<^verbatim>\<open>createMap\<close> only reads the rows.
\<close>

definition createTypeUsageChart_updateChart_heap ::
  "(jsobject \<Rightarrow> jsobject) \<Rightarrow> (string \<Rightarrow> jsnum) \<Rightarrow> usage_selection \<Rightarrow> nat \<Rightarrow> heap \<Rightarrow> nat \<times> heap" where
  "createTypeUsageChart_updateChart_heap touch pf sel data h =
     (let (mapped, h1) = array_map (\<lambda>x. UsagePoint (usage_point_of pf (row_at h x))) data h;
          (processedData, h2) =
             array_filter
               (\<lambda>x. case object_at h1 x of Some (UsagePoint d) \<Rightarrow> usage_accepts sel d | _ \<Rightarrow> False)
               mapped h1
      in (processedData, handed_to_library touch processedData h2))"

definition createCostRatingChart_updateChart_heap ::
  "(jsobject \<Rightarrow> jsobject) \<Rightarrow> (string \<Rightarrow> jsnum) \<Rightarrow> rating_selection \<Rightarrow> nat \<Rightarrow> heap \<Rightarrow> nat \<times> heap" where
  "createCostRatingChart_updateChart_heap touch pf sel data h =
     (let (mapped, h1) = array_map (\<lambda>x. RatingPoint (rating_point_of pf (row_at h x))) data h;
          (processedData, h2) =
             array_filter
               (\<lambda>x. case object_at h1 x of Some (RatingPoint d) \<Rightarrow> rating_accepts sel d | _ \<Rightarrow> False)
               mapped h1
      in if length (array_elements h2 processedData) = 0 then (processedData, h2)
         else (processedData, handed_to_library touch processedData h2))"

definition createBoxplotComparison_updateChart_heap ::
  "(jsobject \<Rightarrow> jsobject) \<Rightarrow> (string \<Rightarrow> jsnum) \<Rightarrow> string \<Rightarrow> nat \<Rightarrow> heap \<Rightarrow> error + nat \<times> heap" where
  "createBoxplotComparison_updateChart_heap touch pf selectedFeature data h =
     (case find (\<lambda>f. feature_value f = selectedFeature) features of
        None \<Rightarrow> Inl TypeError
      | Some feature \<Rightarrow>
          (let (mapped, h1) =
                 array_map (\<lambda>x. BoxplotPoint (boxplot_point_of pf feature (row_at h x))) data h;
               (processedData, h2) =
                 array_filter
                   (\<lambda>x. case object_at h1 x of
                           Some (BoxplotPoint d) \<Rightarrow> \<not> isNaN_value (bp_value d) | _ \<Rightarrow> False)
                   mapped h1
           in Inr (processedData, handed_to_library touch processedData h2)))"

definition createOperatorAnalysis_heap ::
  "(jsobject \<Rightarrow> jsobject) \<Rightarrow> (string \<Rightarrow> jsnum) \<Rightarrow> nat \<Rightarrow> heap \<Rightarrow> nat \<times> heap" where
  "createOperatorAnalysis_heap touch pf data h =
     (let (mapped, h1) = array_map (\<lambda>x. OperatorPoint (operator_point_of pf (row_at h x))) data h;
          (processedData, h2) =
             array_filter
               (\<lambda>x. case object_at h1 x of
                       Some (OperatorPoint d) \<Rightarrow>
                         \<not> isNaN (op_rating d) \<and> \<not> isNaN (op_usage d) \<and> \<not> isNaN (capacity d)
                     | _ \<Rightarrow> False)
               mapped h1
      in (processedData, handed_to_library touch processedData h2))"

definition loadTrendChart_updateChart_heap :: "string \<Rightarrow> nat \<Rightarrow> heap \<Rightarrow> nat \<times> heap" where
  "loadTrendChart_updateChart_heap availability data h =
     array_filter (\<lambda>x. trend_accepts availability (row_at h x)) data h"

text \<open>A change of one of the selectors runs the \<^verbatim>\<open>updateChart\<close> of its chart.\<close>

datatype filter_change =
    AvailabilityChanged string
  | UsageFilterChanged usage_selection
  | RatingFilterChanged rating_selection
  | FeatureChanged string

definition on_change ::
  "(jsobject \<Rightarrow> jsobject) \<Rightarrow> (string \<Rightarrow> jsnum) \<Rightarrow> nat \<Rightarrow> filter_change \<Rightarrow> heap \<Rightarrow> heap" where
  "on_change touch pf data change h =
     (case change of
        AvailabilityChanged availability \<Rightarrow>
          snd (loadTrendChart_updateChart_heap availability data h)
      | UsageFilterChanged sel \<Rightarrow> snd (createTypeUsageChart_updateChart_heap touch pf sel data h)
      | RatingFilterChanged sel \<Rightarrow> snd (createCostRatingChart_updateChart_heap touch pf sel data h)
      | FeatureChanged selectedFeature \<Rightarrow>
          (case createBoxplotComparison_updateChart_heap touch pf selectedFeature data h of
             Inl e \<Rightarrow> h
           | Inr (processedData, h') \<Rightarrow> h'))"

section \<open>Properties of \<^verbatim>\<open>loadData\<close>\<close>

text \<open>
  Claim C1, as amended. \<open>loadData\<close> throws when the fetch is rejected and when the
  response is not ok. With an ok response whose parsed table has at least one row it
  throws exactly when one of the three required column names is missing from the keys of
  the first row. When \<open>loadData\<close> returns, it returns the whole parsed table: the rows
  that fail the numeric validation are logged (the first two of them) and stay in the
  table.
\<close>

theorem loadData_throws_and_returns_table:
  "(fetched = Rejected \<longrightarrow> snd (loadData pf csvParse fetched) = Inl NetworkError)
   \<and> (\<forall>response. fetched = Resolved response \<and> \<not> ok response \<longrightarrow>
         snd (loadData pf csvParse fetched) = Inl (HttpError (status response)))
   \<and> (\<forall>response first rest.
         fetched = Resolved response \<and> ok response \<and> csvParse (body response) = first # rest \<longrightarrow>
         ((\<exists>e. snd (loadData pf csvParse fetched) = Inl e) \<longleftrightarrow>
          (\<exists>field \<in> set requiredFields. field \<notin> set (keys first))))
   \<and> (\<forall>table. snd (loadData pf csvParse fetched) = Inr table \<longrightarrow>
         (\<exists>response. fetched = Resolved response \<and> table = csvParse (body response))
         \<and> fst (loadData pf csvParse fetched)
             = (if invalidData pf table = [] then []
                else [FoundInvalidDataPoints (take 2 (invalidData pf table))]))"
proof (cases fetched)
  case Rejected
  then show ?thesis by (simp add: loadData_def)
next
  case (Resolved response)
  show ?thesis
  proof (cases "csvParse (body response)")
    case Nil
    with Resolved show ?thesis
      by (auto simp: loadData_def)
  next
    case (Cons first rest)
    have missing: "(filter (\<lambda>field. field \<notin> set (keys first)) requiredFields = [])
        = (\<not> (\<exists>field \<in> set requiredFields. field \<notin> set (keys first)))"
      by (simp add: filter_empty_conv)
    show ?thesis
      using Resolved Cons missing
      by (auto simp: loadData_def Let_def)
  qed
qed

theorem loadData_throws_and_returns_table_witness:
  "snd (loadData (parse_table [(''0.2'', Fin 0.2), (''5'', Fin 5)])
      (\<lambda>csvText. [[(''Cost (USD/kWh)'', ''0.2'')]]) Rejected)
     = Inl NetworkError
   \<and> snd (loadData (parse_table [(''0.2'', Fin 0.2), (''5'', Fin 5)])
      (\<lambda>csvText. [[(''Cost (USD/kWh)'', ''0.2'')]])
      (Resolved \<lparr>ok = False, status = 404, body = ''Not Found''\<rparr>))
     = Inl (HttpError 404)
   \<and> snd (loadData (parse_table [(''0.2'', Fin 0.2), (''5'', Fin 5)])
      (\<lambda>csvText. [[(''Cost (USD/kWh)'', ''0.2'')]])
      (Resolved \<lparr>ok = True, status = 200, body = ''csv''\<rparr>))
     = Inl (MissingRequiredFields [''Usage Stats (avg users/day)'', ''Is24Hours''])
   \<and> loadData (parse_table [(''0.2'', Fin 0.2), (''5'', Fin 5)])
      (\<lambda>csvText.
         [[(''Cost (USD/kWh)'', ''0.2''), (''Usage Stats (avg users/day)'', ''5''),
           (''Is24Hours'', ''True'')],
          [(''Cost (USD/kWh)'', ''free''), (''Usage Stats (avg users/day)'', ''5''),
           (''Is24Hours'', ''False'')]])
      (Resolved \<lparr>ok = True, status = 200, body = ''csv''\<rparr>)
     = ([FoundInvalidDataPoints
          [[(''Cost (USD/kWh)'', ''free''), (''Usage Stats (avg users/day)'', ''5''),
            (''Is24Hours'', ''False'')]]],
        Inr [[(''Cost (USD/kWh)'', ''0.2''), (''Usage Stats (avg users/day)'', ''5''),
              (''Is24Hours'', ''True'')],
             [(''Cost (USD/kWh)'', ''free''), (''Usage Stats (avg users/day)'', ''5''),
              (''Is24Hours'', ''False'')]])"
  using loadData_throws_and_returns_table
      [where pf = "parse_table [(''0.2'', Fin 0.2), (''5'', Fin 5)]"
      and csvParse = "\<lambda>csvText. [[(''Cost (USD/kWh)'', ''0.2'')]]" and fetched = Rejected]
    loadData_throws_and_returns_table
      [where pf = "parse_table [(''0.2'', Fin 0.2), (''5'', Fin 5)]"
      and csvParse = "\<lambda>csvText. [[(''Cost (USD/kWh)'', ''0.2'')]]"
      and fetched = "Resolved \<lparr>ok = False, status = 404, body = ''Not Found''\<rparr>"]
    loadData_throws_and_returns_table
      [where pf = "parse_table [(''0.2'', Fin 0.2), (''5'', Fin 5)]"
      and csvParse = "\<lambda>csvText. [[(''Cost (USD/kWh)'', ''0.2'')]]"
      and fetched = "Resolved \<lparr>ok = True, status = 200, body = ''csv''\<rparr>"]
    loadData_throws_and_returns_table
      [where pf = "parse_table [(''0.2'', Fin 0.2), (''5'', Fin 5)]"
      and csvParse = "\<lambda>csvText.
         [[(''Cost (USD/kWh)'', ''0.2''), (''Usage Stats (avg users/day)'', ''5''),
           (''Is24Hours'', ''True'')],
          [(''Cost (USD/kWh)'', ''free''), (''Usage Stats (avg users/day)'', ''5''),
           (''Is24Hours'', ''False'')]]"
      and fetched = "Resolved \<lparr>ok = True, status = 200, body = ''csv''\<rparr>"]
  by (simp add: loadData_def requiredFields_def keys_def invalidData_def parse_table_def
      parseFloat_def get_field_def isNaN_def Let_def)

text \<open>
  The claim as stated lets \<open>loadData\<close> throw only when the response is not ok or a
  required column name is missing from the first row's keys. It also throws when the
  fetch is rejected, where there is no response, and when the response is ok and the
  CSV text is a header line that names all three columns, where the parsed table has no
  row.
\<close>

theorem loadData_throws_without_bad_response_or_missing_column:
  "snd (loadData (parse_table [(''0.2'', Fin 0.2), (''5'', Fin 5)])
      (\<lambda>csvText. [[(''Cost (USD/kWh)'', ''0.2''), (''Usage Stats (avg users/day)'', ''5''),
         (''Is24Hours'', ''True'')]]) Rejected)
     = Inl NetworkError
   \<and> snd (loadData (parse_table [(''0.2'', Fin 0.2), (''5'', Fin 5)]) (\<lambda>csvText. [])
      (Resolved \<lparr>ok = True, status = 200,
         body = ''Cost (USD/kWh),Usage Stats (avg users/day),Is24Hours''\<rparr>))
     = Inl TypeError"
  by (simp add: loadData_def)

text \<open>With a table that has no row the error is the \<^verbatim>\<open>TypeError\<close> of
  \<^verbatim>\<open>Object.keys(data[0])\<close>, also when the header of the CSV text names all three columns.\<close>

lemma loadData_empty_table:
  "loadData pf (\<lambda>csvText. []) (Resolved \<lparr>ok = True, status = 200, body = csvText\<rparr>)
     = ([ErrorLoadingData TypeError], Inl TypeError)"
  by (simp add: loadData_def)

section \<open>Properties of the filters\<close>

lemma if_False_else: "(if c then False else b) = (\<not> c \<and> b)"
  by simp

lemma if_True_else: "(if c then b else True) = (c \<longrightarrow> b)"
  by simp

lemma usage_accepts_conj:
  "usage_accepts sel d =
     (usage_valid d \<and> usage_type_ok sel d \<and> usage_power_ok sel d \<and> usage_cost_ok sel d
      \<and> usage_renewable_ok sel d \<and> usage_range_ok sel d)"
  unfolding usage_accepts_def usage_valid_def usage_type_ok_def usage_power_ok_def
    usage_cost_ok_def usage_renewable_ok_def usage_range_ok_def if_False_else if_True_else
  by blast

lemma rating_accepts_conj:
  "rating_accepts sel d = (rating_valid d \<and> rating_type_ok sel d \<and> rating_availability_ok sel d)"
  unfolding rating_accepts_def rating_valid_def rating_type_ok_def rating_availability_ok_def
  by auto

lemma fold_filter: "fold filter ps xs = filter (\<lambda>x. \<forall>p\<in>set ps. p x) xs"
  by (induction ps arbitrary: xs) (auto intro: filter_cong)

lemma usage_accepts_all_dims: "usage_accepts sel d = (\<forall>p\<in>set (usage_dimensions sel). p d)"
  by (simp add: usage_accepts_conj usage_dimensions_def)

lemma rating_accepts_all_dims: "rating_accepts sel d = (\<forall>p\<in>set (rating_dimensions sel). p d)"
  by (simp add: rating_accepts_conj rating_dimensions_def)

text \<open>
  Claim C2. In both \<^verbatim>\<open>processData\<close> functions the filter callback accepts a record
  exactly when every per-dimension predicate does, so applying the predicates one after
  the other, in any order (any list \<open>ps\<close> that is a permutation of the dimensions),
  gives the result of \<^verbatim>\<open>processData\<close>; and filtering the result of \<^verbatim>\<open>processData\<close> again
  with the same combined filter changes nothing.
\<close>

theorem processData_order_independent_and_idempotent:
  assumes "mset ps = mset (usage_dimensions sel)" and "mset qs = mset (rating_dimensions sel')"
  shows "fold filter ps (map (usage_point_of pf) data) = createTypeUsageChart_processData pf sel data
    \<and> fold filter qs (map (rating_point_of pf) data) = createCostRatingChart_processData pf sel' data
    \<and> filter (usage_accepts sel) (createTypeUsageChart_processData pf sel data)
        = createTypeUsageChart_processData pf sel data
    \<and> filter (rating_accepts sel') (createCostRatingChart_processData pf sel' data)
        = createCostRatingChart_processData pf sel' data"
proof -
  have ps: "set ps = set (usage_dimensions sel)" using assms(1) by (rule mset_eq_setD)
  have qs: "set qs = set (rating_dimensions sel')" using assms(2) by (rule mset_eq_setD)
  have 1: "fold filter ps (map (usage_point_of pf) data) = createTypeUsageChart_processData pf sel data"
    unfolding createTypeUsageChart_processData_def fold_filter ps
    by (rule filter_cong) (simp_all add: usage_accepts_all_dims)
  have 2: "fold filter qs (map (rating_point_of pf) data) = createCostRatingChart_processData pf sel' data"
    unfolding createCostRatingChart_processData_def fold_filter qs
    by (rule filter_cong) (simp_all add: rating_accepts_all_dims)
  show ?thesis using 1 2
    by (simp add: createTypeUsageChart_processData_def createCostRatingChart_processData_def)
qed

theorem processData_order_independent_and_idempotent_witness:
  "fold filter
     [usage_range_ok \<lparr>selectedType = ''L2'', selectedPower = ''all'', selectedCost = ''medium'',
        selectedRenewable = ''all'', selectedRange = ''low''\<rparr>,
      usage_cost_ok \<lparr>selectedType = ''L2'', selectedPower = ''all'', selectedCost = ''medium'',
        selectedRenewable = ''all'', selectedRange = ''low''\<rparr>,
      usage_type_ok \<lparr>selectedType = ''L2'', selectedPower = ''all'', selectedCost = ''medium'',
        selectedRenewable = ''all'', selectedRange = ''low''\<rparr>,
      usage_renewable_ok \<lparr>selectedType = ''L2'', selectedPower = ''all'', selectedCost = ''medium'',
        selectedRenewable = ''all'', selectedRange = ''low''\<rparr>,
      usage_valid,
      usage_power_ok \<lparr>selectedType = ''L2'', selectedPower = ''all'', selectedCost = ''medium'',
        selectedRenewable = ''all'', selectedRange = ''low''\<rparr>]
     (map (usage_point_of (parse_table [(''5'', Fin 5), (''0.2'', Fin 0.2), (''4.5'', Fin 4.5)]))
        [[(''Charger Type'', ''L2''), (''Usage Stats (avg users/day)'', ''5''),
          (''Cost (USD/kWh)'', ''0.2''), (''Reviews (Rating)'', ''4.5''), (''Is24Hours'', ''True'')],
         [(''Charger Type'', ''DC''), (''Usage Stats (avg users/day)'', ''5''),
          (''Cost (USD/kWh)'', ''0.2''), (''Reviews (Rating)'', ''4.5''), (''Is24Hours'', ''False'')]])
   = [\<lparr>charger_type = Some ''L2'', usage = Fin 5, is_high_power = False, cost = Fin 0.2,
        renewable = None, hours = ''24/7''\<rparr>]
   \<and> fold filter
     [rating_availability_ok \<lparr>cr_selectedType = ''all'', selectedAvailability = ''limited''\<rparr>,
      rating_valid,
      rating_type_ok \<lparr>cr_selectedType = ''all'', selectedAvailability = ''limited''\<rparr>]
     (map (rating_point_of (parse_table [(''5'', Fin 5), (''0.2'', Fin 0.2), (''4.5'', Fin 4.5)]))
        [[(''Charger Type'', ''L2''), (''Usage Stats (avg users/day)'', ''5''),
          (''Cost (USD/kWh)'', ''0.2''), (''Reviews (Rating)'', ''4.5''), (''Is24Hours'', ''True'')],
         [(''Charger Type'', ''DC''), (''Usage Stats (avg users/day)'', ''5''),
          (''Cost (USD/kWh)'', ''0.2''), (''Reviews (Rating)'', ''4.5''), (''Is24Hours'', ''False'')]])
   = [\<lparr>cr_charger_type = Some ''DC'', cr_cost = Fin 0.2, rating = Fin 4.5, is24Hours = False\<rparr>]"
proof -
  let ?sel = "\<lparr>selectedType = ''L2'', selectedPower = ''all'', selectedCost = ''medium'',
        selectedRenewable = ''all'', selectedRange = ''low''\<rparr>"
  let ?sel' = "\<lparr>cr_selectedType = ''all'', selectedAvailability = ''limited''\<rparr>"
  have h1: "mset [usage_range_ok ?sel, usage_cost_ok ?sel, usage_type_ok ?sel,
      usage_renewable_ok ?sel, usage_valid, usage_power_ok ?sel] = mset (usage_dimensions ?sel)"
    by (simp add: usage_dimensions_def)
  have h2: "mset [rating_availability_ok ?sel', rating_valid, rating_type_ok ?sel']
      = mset (rating_dimensions ?sel')"
    by (simp add: rating_dimensions_def)
  show ?thesis
    using processData_order_independent_and_idempotent [OF h1 h2,
        where pf = "parse_table [(''5'', Fin 5), (''0.2'', Fin 0.2), (''4.5'', Fin 4.5)]"
        and data = "[[(''Charger Type'', ''L2''), (''Usage Stats (avg users/day)'', ''5''),
          (''Cost (USD/kWh)'', ''0.2''), (''Reviews (Rating)'', ''4.5''), (''Is24Hours'', ''True'')],
         [(''Charger Type'', ''DC''), (''Usage Stats (avg users/day)'', ''5''),
          (''Cost (USD/kWh)'', ''0.2''), (''Reviews (Rating)'', ''4.5''), (''Is24Hours'', ''False'')]]"]
    by (simp add: createTypeUsageChart_processData_def createCostRatingChart_processData_def
        usage_point_of_def rating_point_of_def usage_accepts_def rating_accepts_def
        parse_table_def parseFloat_def get_field_def isNaN_def js_gt_def js_ge_def)

qed

text \<open>
  Claim C9. A record whose \<^verbatim>\<open>Is24Hours\<close> field is neither \<^verbatim>\<open>'True'\<close> nor \<^verbatim>\<open>'False'\<close>
  (or is missing) is rejected by the trend chart under both the \<^verbatim>\<open>'24/7'\<close> and the
  \<^verbatim>\<open>'limited'\<close> selection although \<^verbatim>\<open>'all'\<close> accepts it, so the two selections do not
  cover \<^verbatim>\<open>'all'\<close>; the cost-vs-rating chart's availability predicate accepts it under
  \<^verbatim>\<open>'limited'\<close> (where the chart keeps it exactly when it keeps it under \<^verbatim>\<open>'all'\<close>) and
  rejects it under \<^verbatim>\<open>'24h'\<close>.
\<close>

theorem unclassified_availability_differs_between_charts:
  assumes "get_field d ''Is24Hours'' \<noteq> Some ''True''" and "get_field d ''Is24Hours'' \<noteq> Some ''False''"
  shows "\<not> trend_accepts ''limited'' d \<and> \<not> trend_accepts ''24/7'' d \<and> trend_accepts ''all'' d
    \<and> rating_availability_ok (sel\<lparr>selectedAvailability := ''limited''\<rparr>) (rating_point_of pf d)
    \<and> \<not> rating_availability_ok (sel\<lparr>selectedAvailability := ''24h''\<rparr>) (rating_point_of pf d)
    \<and> rating_accepts (sel\<lparr>selectedAvailability := ''limited''\<rparr>) (rating_point_of pf d)
        = rating_accepts (sel\<lparr>selectedAvailability := ''all''\<rparr>) (rating_point_of pf d)
    \<and> (d \<in> set data \<longrightarrow>
          d \<in> set (trend_filteredData ''all'' data)
          \<and> d \<notin> set (trend_filteredData ''24/7'' data) \<union> set (trend_filteredData ''limited'' data))"
  using assms
  by (simp add: trend_accepts_def trend_filteredData_def rating_availability_ok_def
      rating_accepts_def rating_point_of_def)

theorem unclassified_availability_differs_between_charts_witness:
  "get_field [(''Charger Type'', ''L2''), (''Cost (USD/kWh)'', ''0.2''),
      (''Reviews (Rating)'', ''4.5''), (''Is24Hours'', ''Unknown'')] ''Is24Hours'' \<noteq> Some ''True''
   \<and> get_field [(''Charger Type'', ''L2''), (''Cost (USD/kWh)'', ''0.2''),
      (''Reviews (Rating)'', ''4.5''), (''Is24Hours'', ''Unknown'')] ''Is24Hours'' \<noteq> Some ''False''
   \<and> \<not> trend_accepts ''limited'' [(''Charger Type'', ''L2''), (''Cost (USD/kWh)'', ''0.2''),
      (''Reviews (Rating)'', ''4.5''), (''Is24Hours'', ''Unknown'')]
   \<and> \<not> trend_accepts ''24/7'' [(''Charger Type'', ''L2''), (''Cost (USD/kWh)'', ''0.2''),
      (''Reviews (Rating)'', ''4.5''), (''Is24Hours'', ''Unknown'')]
   \<and> trend_filteredData ''all'' [[(''Charger Type'', ''L2''), (''Cost (USD/kWh)'', ''0.2''),
      (''Reviews (Rating)'', ''4.5''), (''Is24Hours'', ''Unknown'')]]
      = [[(''Charger Type'', ''L2''), (''Cost (USD/kWh)'', ''0.2''),
      (''Reviews (Rating)'', ''4.5''), (''Is24Hours'', ''Unknown'')]]
   \<and> createCostRatingChart_processData (parse_table [(''0.2'', Fin 0.2), (''4.5'', Fin 4.5)])
      \<lparr>cr_selectedType = ''all'', selectedAvailability = ''limited''\<rparr>
      [[(''Charger Type'', ''L2''), (''Cost (USD/kWh)'', ''0.2''),
        (''Reviews (Rating)'', ''4.5''), (''Is24Hours'', ''Unknown'')]]
      = [\<lparr>cr_charger_type = Some ''L2'', cr_cost = Fin 0.2, rating = Fin 4.5, is24Hours = False\<rparr>]"
proof -
  let ?d = "[(''Charger Type'', ''L2''), (''Cost (USD/kWh)'', ''0.2''),
      (''Reviews (Rating)'', ''4.5''), (''Is24Hours'', ''Unknown'')]"
  have h1: "get_field ?d ''Is24Hours'' \<noteq> Some ''True''" by (simp add: get_field_def)
  have h2: "get_field ?d ''Is24Hours'' \<noteq> Some ''False''" by (simp add: get_field_def)
  show ?thesis
    using h1 h2 unclassified_availability_differs_between_charts [OF h1 h2,
        where data = "[?d]" and pf = "parse_table [(''0.2'', Fin 0.2), (''4.5'', Fin 4.5)]"
        and sel = "\<lparr>cr_selectedType = ''all'', selectedAvailability = ''limited''\<rparr>"]
    by (simp add: trend_filteredData_def trend_accepts_def createCostRatingChart_processData_def
        rating_accepts_def rating_point_of_def parse_table_def parseFloat_def get_field_def isNaN_def)
qed

text \<open>
  Claim C10. The three cost-range selections should each accept a disjoint part of the
  records that pass the base validity check. The base check looks at the usage only: a
  record with a valid usage and a cost that does not parse (\<^verbatim>\<open>NaN\<close>) is accepted under
  \<^verbatim>\<open>'low'\<close>, under \<^verbatim>\<open>'medium'\<close> and under \<^verbatim>\<open>'high'\<close>, since every comparison with \<^verbatim>\<open>NaN\<close>
  is false and each selection rejects by a comparison.
\<close>

theorem nan_cost_accepted_by_every_cost_range:
  "createTypeUsageChart_processData (parse_table [(''5'', Fin 5)])
     \<lparr>selectedType = ''all'', selectedPower = ''all'', selectedCost = ''low'',
      selectedRenewable = ''all'', selectedRange = ''all''\<rparr>
     [[(''Charger Type'', ''L2''), (''Usage Stats (avg users/day)'', ''5''), (''Cost (USD/kWh)'', [])]]
   = [\<lparr>charger_type = Some ''L2'', usage = Fin 5, is_high_power = False, cost = NaN,
        renewable = None, hours = ''Limited''\<rparr>]
   \<and> createTypeUsageChart_processData (parse_table [(''5'', Fin 5)])
     \<lparr>selectedType = ''all'', selectedPower = ''all'', selectedCost = ''medium'',
      selectedRenewable = ''all'', selectedRange = ''all''\<rparr>
     [[(''Charger Type'', ''L2''), (''Usage Stats (avg users/day)'', ''5''), (''Cost (USD/kWh)'', [])]]
   = [\<lparr>charger_type = Some ''L2'', usage = Fin 5, is_high_power = False, cost = NaN,
        renewable = None, hours = ''Limited''\<rparr>]
   \<and> createTypeUsageChart_processData (parse_table [(''5'', Fin 5)])
     \<lparr>selectedType = ''all'', selectedPower = ''all'', selectedCost = ''high'',
      selectedRenewable = ''all'', selectedRange = ''all''\<rparr>
     [[(''Charger Type'', ''L2''), (''Usage Stats (avg users/day)'', ''5''), (''Cost (USD/kWh)'', [])]]
   = [\<lparr>charger_type = Some ''L2'', usage = Fin 5, is_high_power = False, cost = NaN,
        renewable = None, hours = ''Limited''\<rparr>]"
  by (simp add: createTypeUsageChart_processData_def usage_point_of_def usage_accepts_def
      parse_table_def parseFloat_def get_field_def isNaN_def js_gt_def js_ge_def)

text \<open>What does hold: the usage ranges partition the valid records, and the cost ranges
  partition the records whose cost is a number.\<close>

lemma usage_range_partition:
  assumes "usage_valid d"
  shows "(usage_range_ok (sel\<lparr>selectedRange := ''low''\<rparr>) d
          \<or> usage_range_ok (sel\<lparr>selectedRange := ''medium''\<rparr>) d
          \<or> usage_range_ok (sel\<lparr>selectedRange := ''high''\<rparr>) d)
    \<and> \<not> (usage_range_ok (sel\<lparr>selectedRange := ''low''\<rparr>) d
          \<and> usage_range_ok (sel\<lparr>selectedRange := ''medium''\<rparr>) d)
    \<and> \<not> (usage_range_ok (sel\<lparr>selectedRange := ''low''\<rparr>) d
          \<and> usage_range_ok (sel\<lparr>selectedRange := ''high''\<rparr>) d)
    \<and> \<not> (usage_range_ok (sel\<lparr>selectedRange := ''medium''\<rparr>) d
          \<and> usage_range_ok (sel\<lparr>selectedRange := ''high''\<rparr>) d)"
  using assms
  by (cases "usage d") (auto simp: usage_valid_def usage_range_ok_def isNaN_def js_gt_def)

lemma cost_range_partition:
  assumes "cost d \<noteq> NaN"
  shows "(usage_cost_ok (sel\<lparr>selectedCost := ''low''\<rparr>) d
          \<or> usage_cost_ok (sel\<lparr>selectedCost := ''medium''\<rparr>) d
          \<or> usage_cost_ok (sel\<lparr>selectedCost := ''high''\<rparr>) d)
    \<and> \<not> (usage_cost_ok (sel\<lparr>selectedCost := ''low''\<rparr>) d
          \<and> usage_cost_ok (sel\<lparr>selectedCost := ''medium''\<rparr>) d)
    \<and> \<not> (usage_cost_ok (sel\<lparr>selectedCost := ''low''\<rparr>) d
          \<and> usage_cost_ok (sel\<lparr>selectedCost := ''high''\<rparr>) d)
    \<and> \<not> (usage_cost_ok (sel\<lparr>selectedCost := ''medium''\<rparr>) d
          \<and> usage_cost_ok (sel\<lparr>selectedCost := ''high''\<rparr>) d)"
  using assms
  by (cases "cost d") (auto simp: usage_cost_ok_def js_gt_def js_ge_def)

section \<open>Properties of the chart updates\<close>

lemma group_keys_Nil: "group_keys [] = []"
  by (simp add: group_keys_def)

lemma rollup_Nil: "rollup [] reduce key = []"
  by (simp add: rollup_def group_keys_def)

text \<open>
  Claim C3. When the filtered data set is empty no aggregate is displayed:
  \<^verbatim>\<open>updateChart\<close> of the cost-vs-rating chart replaces the container's content by the
  message "No data available for selected filters" and returns; \<^verbatim>\<open>updateChart\<close> of the
  usage chart adds the (empty) chart and no statistics block; the boxplot's statistics
  block has no line, since there is no group.
\<close>

theorem empty_selection_displays_no_aggregate:
  "(createCostRatingChart_processData pf sel' data = [] \<longrightarrow>
      createCostRatingChart_updateChart lib pf sel' data container
        = [ErrorParagraph ''No data available for selected filters'']
      \<and> displayed_aggregates (createCostRatingChart_updateChart lib pf sel' data container) = [])
   \<and> (createTypeUsageChart_processData pf sel data = [] \<longrightarrow>
      createTypeUsageChart_updateChart lib pf sel data container
        = container @ [ChartContainer ''type-usage-chart'' 0]
      \<and> displayed_aggregates (createTypeUsageChart_updateChart lib pf sel data container)
          = displayed_aggregates container)
   \<and> (createBoxplotComparison_processedData pf selectedFeature data = Inr [] \<longrightarrow>
      createBoxplotComparison_updateChart lib pf selectedFeature data container
        = Inr [FilterContainer, ChartContainer ''boxplot-chart'' 0, StatsInfo []])"
  by (simp add: createCostRatingChart_updateChart_def createTypeUsageChart_updateChart_def
      createBoxplotComparison_updateChart_def displayed_aggregates_def rollup_Nil)

theorem empty_selection_displays_no_aggregate_witness:
  "createCostRatingChart_processData (parse_table [(''5'', Fin 5), (''0.2'', Fin 0.2), (''4.5'', Fin 4.5)])
      \<lparr>cr_selectedType = ''L1'', selectedAvailability = ''all''\<rparr>
      [[(''Charger Type'', ''L2''), (''Usage Stats (avg users/day)'', ''5''),
        (''Cost (USD/kWh)'', ''0.2''), (''Reviews (Rating)'', ''4.5''), (''Is24Hours'', ''True'')]] = []
   \<and> createCostRatingChart_updateChart
      \<lparr>d3_mean = (\<lambda>xs. NaN), d3_median = (\<lambda>xs. NaN), d3_quantile = (\<lambda>xs p. NaN),
        d3_correlation = (\<lambda>xs ys. NaN)\<rparr>
      (parse_table [(''5'', Fin 5), (''0.2'', Fin 0.2), (''4.5'', Fin 4.5)])
      \<lparr>cr_selectedType = ''L1'', selectedAvailability = ''all''\<rparr>
      [[(''Charger Type'', ''L2''), (''Usage Stats (avg users/day)'', ''5''),
        (''Cost (USD/kWh)'', ''0.2''), (''Reviews (Rating)'', ''4.5''), (''Is24Hours'', ''True'')]]
      [FilterContainer]
     = [ErrorParagraph ''No data available for selected filters'']
   \<and> createTypeUsageChart_processData (parse_table [(''5'', Fin 5), (''0.2'', Fin 0.2), (''4.5'', Fin 4.5)])
      \<lparr>selectedType = ''L1'', selectedPower = ''all'', selectedCost = ''all'',
        selectedRenewable = ''all'', selectedRange = ''all''\<rparr>
      [[(''Charger Type'', ''L2''), (''Usage Stats (avg users/day)'', ''5''),
        (''Cost (USD/kWh)'', ''0.2''), (''Reviews (Rating)'', ''4.5''), (''Is24Hours'', ''True'')]] = []
   \<and> createTypeUsageChart_updateChart
      \<lparr>d3_mean = (\<lambda>xs. NaN), d3_median = (\<lambda>xs. NaN), d3_quantile = (\<lambda>xs p. NaN),
        d3_correlation = (\<lambda>xs ys. NaN)\<rparr>
      (parse_table [(''5'', Fin 5), (''0.2'', Fin 0.2), (''4.5'', Fin 4.5)])
      \<lparr>selectedType = ''L1'', selectedPower = ''all'', selectedCost = ''all'',
        selectedRenewable = ''all'', selectedRange = ''all''\<rparr>
      [[(''Charger Type'', ''L2''), (''Usage Stats (avg users/day)'', ''5''),
        (''Cost (USD/kWh)'', ''0.2''), (''Reviews (Rating)'', ''4.5''), (''Is24Hours'', ''True'')]]
      [FilterContainer]
     = [FilterContainer, ChartContainer ''type-usage-chart'' 0]
   \<and> createBoxplotComparison_processedData
      (parse_table [(''5'', Fin 5), (''0.2'', Fin 0.2), (''4.5'', Fin 4.5)]) ''capacity''
      [[(''Charger Type'', ''L2''), (''Usage Stats (avg users/day)'', ''5''),
        (''Cost (USD/kWh)'', ''0.2''), (''Reviews (Rating)'', ''4.5''), (''Is24Hours'', ''True'')]] = Inr []
   \<and> createBoxplotComparison_updateChart
      \<lparr>d3_mean = (\<lambda>xs. NaN), d3_median = (\<lambda>xs. NaN), d3_quantile = (\<lambda>xs p. NaN),
        d3_correlation = (\<lambda>xs ys. NaN)\<rparr>
      (parse_table [(''5'', Fin 5), (''0.2'', Fin 0.2), (''4.5'', Fin 4.5)]) ''capacity''
      [[(''Charger Type'', ''L2''), (''Usage Stats (avg users/day)'', ''5''),
        (''Cost (USD/kWh)'', ''0.2''), (''Reviews (Rating)'', ''4.5''), (''Is24Hours'', ''True'')]]
      [FilterContainer]
     = Inr [FilterContainer, ChartContainer ''boxplot-chart'' 0, StatsInfo []]"
proof -
  let ?pf = "parse_table [(''5'', Fin 5), (''0.2'', Fin 0.2), (''4.5'', Fin 4.5)]"
  let ?data = "[[(''Charger Type'', ''L2''), (''Usage Stats (avg users/day)'', ''5''),
        (''Cost (USD/kWh)'', ''0.2''), (''Reviews (Rating)'', ''4.5''), (''Is24Hours'', ''True'')]]"
  have r: "createCostRatingChart_processData ?pf
      \<lparr>cr_selectedType = ''L1'', selectedAvailability = ''all''\<rparr> ?data = []"
    by (simp add: createCostRatingChart_processData_def rating_accepts_def rating_point_of_def
        parse_table_def parseFloat_def get_field_def isNaN_def)
  have u: "createTypeUsageChart_processData ?pf
      \<lparr>selectedType = ''L1'', selectedPower = ''all'', selectedCost = ''all'',
        selectedRenewable = ''all'', selectedRange = ''all''\<rparr> ?data = []"
    by (simp add: createTypeUsageChart_processData_def usage_accepts_def usage_point_of_def
        parse_table_def parseFloat_def get_field_def isNaN_def)
  have b: "createBoxplotComparison_processedData ?pf ''capacity'' ?data = Inr []"
    by (simp add: createBoxplotComparison_processedData_def features_def boxplot_point_of_def
        isNaN_value_def parseFloat_def get_field_def isNaN_def)
  show ?thesis
    using r u b
      empty_selection_displays_no_aggregate [where pf = ?pf and data = ?data
        and sel' = "\<lparr>cr_selectedType = ''L1'', selectedAvailability = ''all''\<rparr>"
        and sel = "\<lparr>selectedType = ''L1'', selectedPower = ''all'', selectedCost = ''all'',
          selectedRenewable = ''all'', selectedRange = ''all''\<rparr>"
        and selectedFeature = "''capacity''" and container = "[FilterContainer]"
        and lib = "\<lparr>d3_mean = (\<lambda>xs. NaN), d3_median = (\<lambda>xs. NaN), d3_quantile = (\<lambda>xs p. NaN),
          d3_correlation = (\<lambda>xs ys. NaN)\<rparr>"]
    by simp
qed

section \<open>Properties of the prepared data\<close>

lemma maintenance_transform_number:
  assumes "v \<notin> set (map Some object_prototype_names)"
  shows "\<exists>n. maintenance_transform v = Own n \<and> n \<noteq> NaN"
proof (cases v)
  case None
  then show ?thesis
    by (simp add: maintenance_transform_def literal_get_def or_else_def object_prototype_names_def)
next
  case (Some s)
  with assms have "s \<notin> set object_prototype_names" by auto
  with Some show ?thesis
    by (auto simp: maintenance_transform_def literal_get_def or_else_def truthy_number_def)
qed

lemma boxplot_values_numbers:
  assumes "createBoxplotComparison_processedData pf selectedFeature data = Inr ps" and "d \<in> set ps"
  shows "\<exists>n. bp_value d = Own n \<and> n \<noteq> NaN"
proof -
  from assms have "\<not> isNaN_value (bp_value d)"
    by (auto simp: createBoxplotComparison_processedData_def split: option.splits)
  then show ?thesis
    by (cases "bp_value d") (simp_all add: isNaN_value_def isNaN_def)
qed

text \<open>
  What does hold: every record that a \<^verbatim>\<open>processData\<close> or preparation step keeps has a
  number other than \<^verbatim>\<open>NaN\<close> in each aggregated field, and the maintenance transform
  yields a number for every input that is not the name of a property inherited from
  \<^verbatim>\<open>Object.prototype\<close>.
\<close>

lemma aggregated_fields_are_valid_numbers:
  "(\<forall>d \<in> set (createTypeUsageChart_processData pf sel data). usage d \<noteq> NaN)
   \<and> (\<forall>d \<in> set (createCostRatingChart_processData pf sel' data). cr_cost d \<noteq> NaN \<and> rating d \<noteq> NaN)
   \<and> (\<forall>ps. createBoxplotComparison_processedData pf selectedFeature data = Inr ps \<longrightarrow>
         (\<forall>d \<in> set ps. \<exists>n. bp_value d = Own n \<and> n \<noteq> NaN))
   \<and> (\<forall>d \<in> set (createOperatorAnalysis_processedData pf data).
         op_rating d \<noteq> NaN \<and> op_usage d \<noteq> NaN \<and> capacity d \<noteq> NaN)
   \<and> (\<forall>v. v \<notin> set (map Some object_prototype_names) \<longrightarrow>
         (\<exists>n. maintenance_transform v = Own n \<and> n \<noteq> NaN))"
proof -
  have 1: "\<forall>d \<in> set (createTypeUsageChart_processData pf sel data). usage d \<noteq> NaN"
    by (auto simp: createTypeUsageChart_processData_def usage_accepts_def isNaN_def split: if_splits)
  have 2: "\<forall>d \<in> set (createCostRatingChart_processData pf sel' data). cr_cost d \<noteq> NaN \<and> rating d \<noteq> NaN"
    by (auto simp: createCostRatingChart_processData_def rating_accepts_def isNaN_def split: if_splits)
  have 4: "\<forall>d \<in> set (createOperatorAnalysis_processedData pf data).
         op_rating d \<noteq> NaN \<and> op_usage d \<noteq> NaN \<and> capacity d \<noteq> NaN"
    by (auto simp: createOperatorAnalysis_processedData_def isNaN_def)
  show ?thesis
    using 1 2 4 boxplot_values_numbers maintenance_transform_number by blast
qed

lemma aggregated_fields_are_valid_numbers_example:
  "createTypeUsageChart_processData (parse_table [(''5'', Fin 5), (''0.2'', Fin 0.2), (''4.5'', Fin 4.5)])
      \<lparr>selectedType = ''all'', selectedPower = ''all'', selectedCost = ''all'',
        selectedRenewable = ''all'', selectedRange = ''all''\<rparr>
      [[(''Charger Type'', ''L2''), (''Usage Stats (avg users/day)'', ''5''),
        (''Cost (USD/kWh)'', ''0.2''), (''Reviews (Rating)'', ''4.5''),
        (''Charging Capacity (kW)'', ''5''), (''Maintenance Frequency'', ''Monthly'')],
       [(''Charger Type'', ''DC''), (''Usage Stats (avg users/day)'', ''n/a''),
        (''Cost (USD/kWh)'', ''free''), (''Reviews (Rating)'', ''none''),
        (''Charging Capacity (kW)'', ''unknown''), (''Maintenance Frequency'', ''constructor'')]]
     = [\<lparr>charger_type = Some ''L2'', usage = Fin 5, is_high_power = False, cost = Fin 0.2,
          renewable = None, hours = ''Limited''\<rparr>]
   \<and> usage \<lparr>charger_type = Some ''L2'', usage = Fin 5, is_high_power = False, cost = Fin 0.2,
          renewable = None, hours = ''Limited''\<rparr> \<noteq> NaN
   \<and> createCostRatingChart_processData (parse_table [(''5'', Fin 5), (''0.2'', Fin 0.2), (''4.5'', Fin 4.5)])
      \<lparr>cr_selectedType = ''all'', selectedAvailability = ''all''\<rparr>
      [[(''Charger Type'', ''L2''), (''Usage Stats (avg users/day)'', ''5''),
        (''Cost (USD/kWh)'', ''0.2''), (''Reviews (Rating)'', ''4.5''),
        (''Charging Capacity (kW)'', ''5''), (''Maintenance Frequency'', ''Monthly'')],
       [(''Charger Type'', ''DC''), (''Usage Stats (avg users/day)'', ''n/a''),
        (''Cost (USD/kWh)'', ''free''), (''Reviews (Rating)'', ''none''),
        (''Charging Capacity (kW)'', ''unknown''), (''Maintenance Frequency'', ''constructor'')]]
     = [\<lparr>cr_charger_type = Some ''L2'', cr_cost = Fin 0.2, rating = Fin 4.5, is24Hours = False\<rparr>]
   \<and> createBoxplotComparison_processedData
      (parse_table [(''5'', Fin 5), (''0.2'', Fin 0.2), (''4.5'', Fin 4.5)]) ''maintenance''
      [[(''Charger Type'', ''L2''), (''Usage Stats (avg users/day)'', ''5''),
        (''Cost (USD/kWh)'', ''0.2''), (''Reviews (Rating)'', ''4.5''),
        (''Charging Capacity (kW)'', ''5''), (''Maintenance Frequency'', ''Monthly'')],
       [(''Charger Type'', ''DC''), (''Usage Stats (avg users/day)'', ''n/a''),
        (''Cost (USD/kWh)'', ''free''), (''Reviews (Rating)'', ''none''),
        (''Charging Capacity (kW)'', ''unknown''), (''Maintenance Frequency'', ''constructor'')]]
     = Inr [\<lparr>bp_type = Some ''L2'', bp_value = Own (Fin 3), costRange = None, bp_operator = None,
          bp_renewable = None, connectors = None\<rparr>]
   \<and> createOperatorAnalysis_processedData
      (parse_table [(''5'', Fin 5), (''0.2'', Fin 0.2), (''4.5'', Fin 4.5)])
      [[(''Charger Type'', ''L2''), (''Usage Stats (avg users/day)'', ''5''),
        (''Cost (USD/kWh)'', ''0.2''), (''Reviews (Rating)'', ''4.5''),
        (''Charging Capacity (kW)'', ''5''), (''Maintenance Frequency'', ''Monthly'')],
       [(''Charger Type'', ''DC''), (''Usage Stats (avg users/day)'', ''n/a''),
        (''Cost (USD/kWh)'', ''free''), (''Reviews (Rating)'', ''none''),
        (''Charging Capacity (kW)'', ''unknown''), (''Maintenance Frequency'', ''constructor'')]]
     = [\<lparr>op_operator = None, op_rating = Fin 4.5, op_usage = Fin 5, op_renewable = None,
          chargerType = Some ''L2'', capacity = Fin 5\<rparr>]
   \<and> Some ''Weekly'' \<notin> set (map Some object_prototype_names)
   \<and> maintenance_transform (Some ''Weekly'') = Own (Fin 0)"
  using aggregated_fields_are_valid_numbers [where pf = "parse_table [(''5'', Fin 5), (''0.2'', Fin 0.2), (''4.5'', Fin 4.5)]"
      and sel = "\<lparr>selectedType = ''all'', selectedPower = ''all'', selectedCost = ''all'',
        selectedRenewable = ''all'', selectedRange = ''all''\<rparr>"
      and sel' = "\<lparr>cr_selectedType = ''all'', selectedAvailability = ''all''\<rparr>"
      and selectedFeature = "''maintenance''"
      and data = "[[(''Charger Type'', ''L2''), (''Usage Stats (avg users/day)'', ''5''),
        (''Cost (USD/kWh)'', ''0.2''), (''Reviews (Rating)'', ''4.5''),
        (''Charging Capacity (kW)'', ''5''), (''Maintenance Frequency'', ''Monthly'')],
       [(''Charger Type'', ''DC''), (''Usage Stats (avg users/day)'', ''n/a''),
        (''Cost (USD/kWh)'', ''free''), (''Reviews (Rating)'', ''none''),
        (''Charging Capacity (kW)'', ''unknown''), (''Maintenance Frequency'', ''constructor'')]]"]
  by (simp add: createTypeUsageChart_processData_def usage_accepts_def usage_point_of_def
      createCostRatingChart_processData_def rating_accepts_def rating_point_of_def
      createBoxplotComparison_processedData_def features_def boxplot_point_of_def
      createOperatorAnalysis_processedData_def operator_point_of_def
      maintenance_transform_def literal_get_def or_else_def object_prototype_names_def
      truthy_number_def isNaN_value_def
      parse_table_def parseFloat_def get_field_def isNaN_def)

text \<open>
  Every group that \<^verbatim>\<open>d3.rollup\<close> hands to the statistics is a non-empty part of the
  prepared records, so \<^verbatim>\<open>d3.mean\<close>, \<^verbatim>\<open>d3.median\<close>, \<^verbatim>\<open>d3.quantile\<close> and
  \<^verbatim>\<open>d3.correlation\<close> are computed over numbers other than \<^verbatim>\<open>NaN\<close> only.
\<close>

lemma group_keys_fold_set:
  "set (fold (\<lambda>k seen. if k \<in> set seen then seen else seen @ [k]) ks acc) = set acc \<union> set ks"
  by (induction ks arbitrary: acc) auto

lemma set_group_keys: "set (group_keys ks) = set ks"
  by (simp add: group_keys_def group_keys_fold_set)

lemma rollup_group:
  assumes "(k, v) \<in> set (rollup xs (\<lambda>v. v) key)"
  shows "v = filter (\<lambda>x. key x = k) xs \<and> v \<noteq> [] \<and> set v \<subseteq> set xs"
proof -
  from assms have k: "k \<in> key ` set xs" and v: "v = filter (\<lambda>x. key x = k) xs"
    by (auto simp: rollup_def set_group_keys)
  from k obtain x where "x \<in> set xs" "key x = k" by auto
  then have "x \<in> set (filter (\<lambda>x. key x = k) xs)" by simp
  then have "filter (\<lambda>x. key x = k) xs \<noteq> []" by (cases "filter (\<lambda>x. key x = k) xs") simp_all
  moreover have "set (filter (\<lambda>x. key x = k) xs) \<subseteq> set xs" by simp
  ultimately show ?thesis unfolding v by blast
qed

lemma rollup_nested_group:
  assumes "(k, groups) \<in> set (rollup xs (\<lambda>v. rollup v (\<lambda>v. v) key2) key1)"
    and "(k2, v) \<in> set groups"
  shows "v \<noteq> [] \<and> set v \<subseteq> set xs"
proof -
  let ?ys = "filter (\<lambda>x. key1 x = k) xs"
  from assms(1) have "groups = rollup ?ys (\<lambda>v. v) key2"
    by (auto simp: rollup_def)
  with assms(2) have "(k2, v) \<in> set (rollup ?ys (\<lambda>v. v) key2)" by simp
  then have "v \<noteq> []" and "set v \<subseteq> set ?ys"
    using rollup_group [of k2 v ?ys key2] by blast+
  moreover have "set ?ys \<subseteq> set xs" by simp
  ultimately show ?thesis by blast
qed

lemma usage_statistics_inputs:
  assumes "(type, v) \<in> set (rollup (createTypeUsageChart_processData pf sel data) (\<lambda>v. v) charger_type)"
  shows "v \<noteq> [] \<and> (\<forall>d \<in> set v. usage d \<noteq> NaN)"
proof -
  have "v \<noteq> []" and sub: "set v \<subseteq> set (createTypeUsageChart_processData pf sel data)"
    using rollup_group [OF assms] by blast+
  moreover have "usage d \<noteq> NaN" if "d \<in> set (createTypeUsageChart_processData pf sel data)" for d
    using that
    by (auto simp: createTypeUsageChart_processData_def usage_accepts_def isNaN_def split: if_splits)
  ultimately show ?thesis by blast
qed

lemma rating_statistics_inputs:
  assumes "(type, v) \<in> set (rollup (createCostRatingChart_processData pf sel data) (\<lambda>v. v) cr_charger_type)"
  shows "v \<noteq> [] \<and> (\<forall>d \<in> set v. cr_cost d \<noteq> NaN \<and> rating d \<noteq> NaN)"
proof -
  have "v \<noteq> []" and sub: "set v \<subseteq> set (createCostRatingChart_processData pf sel data)"
    using rollup_group [OF assms] by blast+
  moreover have "cr_cost d \<noteq> NaN" and "rating d \<noteq> NaN"
    if "d \<in> set (createCostRatingChart_processData pf sel data)" for d
    using that
    by (auto simp: createCostRatingChart_processData_def rating_accepts_def isNaN_def split: if_splits)
  ultimately show ?thesis by blast
qed

lemma operator_statistics_inputs:
  assumes "(operator, v) \<in> set (rollup (createOperatorAnalysis_processedData pf data) (\<lambda>v. v) op_operator)"
  shows "v \<noteq> []
    \<and> (\<forall>d \<in> set v. op_rating d \<noteq> NaN \<and> op_usage d \<noteq> NaN \<and> capacity d \<noteq> NaN)"
proof -
  have "v \<noteq> []" and sub: "set v \<subseteq> set (createOperatorAnalysis_processedData pf data)"
    using rollup_group [OF assms] by blast+
  moreover have "op_rating d \<noteq> NaN" and "op_usage d \<noteq> NaN" and "capacity d \<noteq> NaN"
    if "d \<in> set (createOperatorAnalysis_processedData pf data)" for d
    using that by (auto simp: createOperatorAnalysis_processedData_def isNaN_def)
  ultimately show ?thesis by blast
qed

lemma boxplot_statistics_inputs:
  assumes "createBoxplotComparison_processedData pf selectedFeature data = Inr processedData"
    and "(type, costRanges) \<in> set (rollup processedData (\<lambda>v. rollup v (\<lambda>v. v) costRange) bp_type)"
    and "(costs, v) \<in> set costRanges"
  shows "v \<noteq> [] \<and> (\<forall>d \<in> set v. number_of (bp_value d) \<noteq> NaN)"
proof -
  have "v \<noteq> []" and sub: "set v \<subseteq> set processedData"
    using rollup_nested_group [OF assms(2,3)] by blast+
  moreover have "number_of (bp_value d) \<noteq> NaN" if "d \<in> set processedData" for d
  proof -
    from assms(1) that have "\<not> isNaN_value (bp_value d)"
      by (auto simp: createBoxplotComparison_processedData_def split: option.splits)
    then show ?thesis
      by (cases "bp_value d") (simp_all add: isNaN_value_def isNaN_def number_of_def)
  qed
  ultimately show ?thesis by blast
qed

text \<open>
  Claim C4. The maintenance transform should yield a number for every input value. For
  the input \<^verbatim>\<open>'constructor'\<close> the lookup \<^verbatim>\<open>scores[value]\<close> finds the inherited
  function, which is truthy, so \<^verbatim>\<open>|| 0\<close> is not taken and the transform returns the
  function: the record is then removed by the \<^verbatim>\<open>isNaN\<close> filter, while a record with
  the unknown frequency \<^verbatim>\<open>'Weekly'\<close> is scored 0 and kept.
\<close>

theorem maintenance_score_of_inherited_name:
  "maintenance_transform (Some ''constructor'') = Inherited ''constructor''
   \<and> createBoxplotComparison_processedData (parse_table []) ''maintenance''
      [[(''Charger Type'', ''L2''), (''Maintenance Frequency'', ''constructor'')],
       [(''Charger Type'', ''L2''), (''Maintenance Frequency'', ''Weekly'')]]
     = Inr [\<lparr>bp_type = Some ''L2'', bp_value = Own (Fin 0), costRange = None, bp_operator = None,
          bp_renewable = None, connectors = None\<rparr>]"
  by (simp add: maintenance_transform_def literal_get_def or_else_def object_prototype_names_def
      truthy_number_def createBoxplotComparison_processedData_def features_def boxplot_point_of_def
      isNaN_value_def isNaN_def get_field_def)

section \<open>Properties of the marker colour\<close>

text \<open>
  Claim C5. Every charger type other than L1, L2 and DC should get the default colour
  \<^verbatim>\<open>'#999'\<close>. For a row whose charger type is \<^verbatim>\<open>'constructor'\<close> the lookup in the colour
  table finds the inherited function, which is truthy, so the marker's \<^verbatim>\<open>fillColor\<close> is
  that function and not the default colour.
\<close>

theorem marker_color_of_inherited_name:
  "marker_color [(''Charger Type'', ''constructor''), (''Latitude'', ''34.05''), (''Longitude'', ''-118.24'')]
     = Inherited ''constructor''"
  by (simp add: marker_color_def literal_get_def or_else_def object_prototype_names_def get_field_def)

text \<open>What does hold: the three mapped types get their colours, and every other value that
  is not the name of an inherited property gets the default.\<close>

lemma marker_color_mapped:
  "get_field d ''Charger Type'' = Some ''L1'' \<Longrightarrow> marker_color d = Own ''#FF6B6B''"
  "get_field d ''Charger Type'' = Some ''L2'' \<Longrightarrow> marker_color d = Own ''#4ECDC4''"
  "get_field d ''Charger Type'' = Some ''DC'' \<Longrightarrow> marker_color d = Own ''#45B7D1''"
  by (simp_all add: marker_color_def literal_get_def or_else_def truthy_string_def)

lemma marker_color_default:
  assumes "get_field d ''Charger Type'' \<notin> set (map Some ([''L1'', ''L2'', ''DC''] @ object_prototype_names))"
  shows "marker_color d = Own ''#999''"
proof (cases "get_field d ''Charger Type''")
  case None
  then show ?thesis
    by (simp add: marker_color_def literal_get_def or_else_def object_prototype_names_def)
next
  case (Some s)
  with assms have "s \<notin> set object_prototype_names" "s \<noteq> ''L1''" "s \<noteq> ''L2''" "s \<noteq> ''DC''" by auto
  with Some show ?thesis
    by (simp add: marker_color_def literal_get_def or_else_def)
qed

section \<open>Properties of the page\<close>


lemma csv_fetches_simps:
  "csv_fetches [] = 0"
  "csv_fetches (FetchCsv # t) = Suc (csv_fetches t)"
  "csv_fetches (Call c # t) = csv_fetches t"
  "csv_fetches (FetchHeatmapSpec # t) = csv_fetches t"
  "csv_fetches (Render c # t) = csv_fetches t"
  "csv_fetches (ShowError c # t) = csv_fetches t"
  "csv_fetches (ConsoleError e # t) = csv_fetches t"
  by (simp_all add: csv_fetches_def)

lemma catch_block_trace:
  "\<exists>rest. trace (fst (catch_block c i prefix e p)) = trace p @ rest \<and> csv_fetches rest = 0"
  by (auto simp: catch_block_def csv_fetches_simps split: option.splits)



















text \<open>
  Claim C6. A failure in one chart should leave the sibling charts alone. On a page that
  has every container except \<^verbatim>\<open>cost-rating-viz\<close>, \<^verbatim>\<open>createCostRatingChart\<close> throws
  "Container element not found", its \<^verbatim>\<open>catch\<close> block assigns \<^verbatim>\<open>innerHTML\<close> of the missing
  element and throws a \<^verbatim>\<open>TypeError\<close>, and \<^verbatim>\<open>initialize\<close> stops: the usage chart, the
  boxplot and the operator analysis are never called and their containers stay empty.
  On the containers of the repository's own \<^verbatim>\<open>index.html\<close>, which has no
  \<^verbatim>\<open>operator-viz\<close>, the same error leaves \<^verbatim>\<open>createOperatorAnalysis\<close>, the last chart.
\<close>

theorem missing_container_stops_initialize:
  "trace (initialize sample_world
      \<lparr>document = index_html(''operator-viz'' \<mapsto> [], ''cost-rating-viz'' := None), trace = []\<rparr>)
     = [FetchCsv, Call MapChart, Render MapChart, Call TrendChart, FetchCsv, Render TrendChart,
        Call HeatmapChart, FetchHeatmapSpec, Render HeatmapChart, Call CostRatingChart,
        ConsoleError TypeError]
   \<and> called (trace (initialize sample_world
      \<lparr>document = index_html(''operator-viz'' \<mapsto> [], ''cost-rating-viz'' := None), trace = []\<rparr>))
     = [MapChart, TrendChart, HeatmapChart, CostRatingChart]
   \<and> document (initialize sample_world
      \<lparr>document = index_html(''operator-viz'' \<mapsto> [], ''cost-rating-viz'' := None), trace = []\<rparr>)
      ''type-usage-viz'' = Some []
   \<and> trace (initialize sample_world \<lparr>document = index_html, trace = []\<rparr>)
     = [FetchCsv, Call MapChart, Render MapChart, Call TrendChart, FetchCsv, Render TrendChart,
        Call HeatmapChart, FetchHeatmapSpec, Render HeatmapChart,
        Call CostRatingChart, Render CostRatingChart, Call TypeUsageChart, Render TypeUsageChart,
        Call BoxplotChart, Render BoxplotChart, Call OperatorChart, ConsoleError TypeError]"
  by code_simp

text \<open>What does hold: when the page has all seven containers and the table loads, no error
  leaves a chart function and every chart function is called; and a chart function
  changes no container but its own.\<close>

lemma called_append: "called (t @ u) = called t @ called u"
  by (induction t rule: called.induct) simp_all

lemma present_cases:
  "(\<forall>i \<in> set container_ids. document p i \<noteq> None) =
     (document p ''map-viz'' \<noteq> None \<and> document p ''trend-viz'' \<noteq> None
      \<and> document p ''heatmap-viz'' \<noteq> None \<and> document p ''cost-rating-viz'' \<noteq> None
      \<and> document p ''type-usage-viz'' \<noteq> None \<and> document p ''boxplot-viz'' \<noteq> None
      \<and> document p ''operator-viz'' \<noteq> None)"
  by (simp add: container_ids_def)

lemma createMap_ok:
  assumes "\<forall>i \<in> set container_ids. document p i \<noteq> None"
  shows "snd (createMap w data p) = None
    \<and> (\<forall>i \<in> set container_ids. document (fst (createMap w data p)) i \<noteq> None)
    \<and> called (trace (fst (createMap w data p))) = called (trace p) @ [MapChart]"
  using assms unfolding present_cases
  by (auto simp: createMap_def catch_block_def rendered_def Let_def called_append
      split: option.splits)

lemma loadTrendChart_ok:
  assumes "\<forall>i \<in> set container_ids. document p i \<noteq> None"
  shows "snd (loadTrendChart w p) = None
    \<and> (\<forall>i \<in> set container_ids. document (fst (loadTrendChart w p)) i \<noteq> None)
    \<and> called (trace (fst (loadTrendChart w p))) = called (trace p) @ [TrendChart]"
  using assms unfolding present_cases
  by (auto simp: loadTrendChart_def await_loadData_def catch_block_def rendered_def Let_def
      called_append split: option.splits sum.splits prod.splits)

lemma createHeatmap_ok:
  assumes "\<forall>i \<in> set container_ids. document p i \<noteq> None"
  shows "snd (createHeatmap w p) = None
    \<and> (\<forall>i \<in> set container_ids. document (fst (createHeatmap w p)) i \<noteq> None)
    \<and> called (trace (fst (createHeatmap w p))) = called (trace p) @ [HeatmapChart]"
  using assms unfolding present_cases
  by (auto simp: createHeatmap_def catch_block_def rendered_def Let_def called_append
      split: option.splits fetch_result.splits)

lemma createCostRatingChart_ok:
  assumes "\<forall>i \<in> set container_ids. document p i \<noteq> None"
  shows "snd (createCostRatingChart w data p) = None
    \<and> (\<forall>i \<in> set container_ids. document (fst (createCostRatingChart w data p)) i \<noteq> None)
    \<and> called (trace (fst (createCostRatingChart w data p))) = called (trace p) @ [CostRatingChart]"
  using assms unfolding present_cases
  by (auto simp: createCostRatingChart_def catch_block_def rendered_def Let_def called_append
      split: option.splits)

lemma createTypeUsageChart_ok:
  assumes "\<forall>i \<in> set container_ids. document p i \<noteq> None"
  shows "snd (createTypeUsageChart w data p) = None
    \<and> (\<forall>i \<in> set container_ids. document (fst (createTypeUsageChart w data p)) i \<noteq> None)
    \<and> called (trace (fst (createTypeUsageChart w data p))) = called (trace p) @ [TypeUsageChart]"
  using assms unfolding present_cases
  by (auto simp: createTypeUsageChart_def catch_block_def rendered_def Let_def called_append
      split: option.splits)

lemma createBoxplotComparison_ok:
  assumes "\<forall>i \<in> set container_ids. document p i \<noteq> None"
  shows "snd (createBoxplotComparison w data p) = None
    \<and> (\<forall>i \<in> set container_ids. document (fst (createBoxplotComparison w data p)) i \<noteq> None)
    \<and> called (trace (fst (createBoxplotComparison w data p))) = called (trace p) @ [BoxplotChart]"
  using assms unfolding present_cases
  by (auto simp: createBoxplotComparison_def catch_block_def rendered_def Let_def called_append
      split: option.splits sum.splits)

lemma createOperatorAnalysis_ok:
  assumes "\<forall>i \<in> set container_ids. document p i \<noteq> None"
  shows "snd (createOperatorAnalysis w data p) = None
    \<and> (\<forall>i \<in> set container_ids. document (fst (createOperatorAnalysis w data p)) i \<noteq> None)
    \<and> called (trace (fst (createOperatorAnalysis w data p))) = called (trace p) @ [OperatorChart]"
  using assms unfolding present_cases
  by (auto simp: createOperatorAnalysis_def catch_block_def rendered_def Let_def called_append
      split: option.splits)

lemma run_charts_all_called:
  assumes "\<And>f c p. (f, c) \<in> set fcs \<Longrightarrow> \<forall>i \<in> set container_ids. document p i \<noteq> None \<Longrightarrow>
      snd (f p) = None \<and> (\<forall>i \<in> set container_ids. document (fst (f p)) i \<noteq> None)
      \<and> called (trace (fst (f p))) = called (trace p) @ [c]"
    and "\<forall>i \<in> set container_ids. document p i \<noteq> None"
  shows "called (trace (run_charts (map fst fcs) p)) = called (trace p) @ map snd fcs"
  using assms
proof (induction fcs arbitrary: p)
  case Nil
  then show ?case by simp
next
  case (Cons fc fcs)
  obtain f c where fc: "fc = (f, c)" by (cases fc)
  have step: "snd (f p) = None \<and> (\<forall>i \<in> set container_ids. document (fst (f p)) i \<noteq> None)
      \<and> called (trace (fst (f p))) = called (trace p) @ [c]"
    using Cons.prems(1) [of f c p] Cons.prems(2) fc by simp
  have "called (trace (run_charts (map fst fcs) (fst (f p))))
      = called (trace (fst (f p))) @ map snd fcs"
  proof (rule Cons.IH)
    fix g d and q :: page
    assume "(g, d) \<in> set fcs" and "\<forall>i \<in> set container_ids. document q i \<noteq> None"
    then show "snd (g q) = None \<and> (\<forall>i \<in> set container_ids. document (fst (g q)) i \<noteq> None)
      \<and> called (trace (fst (g q))) = called (trace q) @ [d]"
      using Cons.prems(1) [of g d q] by simp
  next
    show "\<forall>i \<in> set container_ids. document (fst (f p)) i \<noteq> None"
      using step by simp
  qed
  with step fc show ?case
    by (cases "f p") simp
qed

lemma all_charts_called_when_containers_present:
  assumes "\<forall>i \<in> set container_ids. document p i \<noteq> None"
    and "snd (await_loadData w p) = Inr data"
  shows "called (trace (initialize w p)) = called (trace p) @
     [MapChart, TrendChart, HeatmapChart, CostRatingChart, TypeUsageChart, BoxplotChart,
      OperatorChart]"
proof -
  let ?p1 = "p\<lparr>trace := trace p @ [FetchCsv]\<rparr>"
  let ?fcs = "[(createMap w data, MapChart), (loadTrendChart w, TrendChart),
      (createHeatmap w, HeatmapChart), (createCostRatingChart w data, CostRatingChart),
      (createTypeUsageChart w data, TypeUsageChart), (createBoxplotComparison w data, BoxplotChart),
      (createOperatorAnalysis w data, OperatorChart)]"
  have p1: "\<forall>i \<in> set container_ids. document ?p1 i \<noteq> None" using assms(1) by simp
  have "called (trace (run_charts (map fst ?fcs) ?p1)) = called (trace ?p1) @ map snd ?fcs"
  proof (rule run_charts_all_called [OF _ p1])
    fix f c and q :: page
    assume "(f, c) \<in> set ?fcs" and "\<forall>i \<in> set container_ids. document q i \<noteq> None"
    then show "snd (f q) = None \<and> (\<forall>i \<in> set container_ids. document (fst (f q)) i \<noteq> None)
      \<and> called (trace (fst (f q))) = called (trace q) @ [c]"
      using createMap_ok loadTrendChart_ok createHeatmap_ok createCostRatingChart_ok
        createTypeUsageChart_ok createBoxplotComparison_ok createOperatorAnalysis_ok
      by auto
  qed
  with assms(2) show ?thesis
    by (simp add: initialize_def await_loadData_def called_append)
qed

lemma chart_function_changes_own_container_only:
  "i \<noteq> ''map-viz'' \<Longrightarrow> document (fst (createMap w data p)) i = document p i"
  "i \<noteq> ''trend-viz'' \<Longrightarrow> document (fst (loadTrendChart w p)) i = document p i"
  "i \<noteq> ''heatmap-viz'' \<Longrightarrow> document (fst (createHeatmap w p)) i = document p i"
  "i \<noteq> ''cost-rating-viz'' \<Longrightarrow> document (fst (createCostRatingChart w data p)) i = document p i"
  "i \<noteq> ''type-usage-viz'' \<Longrightarrow> document (fst (createTypeUsageChart w data p)) i = document p i"
  "i \<noteq> ''boxplot-viz'' \<Longrightarrow> document (fst (createBoxplotComparison w data p)) i = document p i"
  "i \<noteq> ''operator-viz'' \<Longrightarrow> document (fst (createOperatorAnalysis w data p)) i = document p i"
  by (auto simp: createMap_def loadTrendChart_def createHeatmap_def createCostRatingChart_def
      createTypeUsageChart_def createBoxplotComparison_def createOperatorAnalysis_def
      await_loadData_def catch_block_def rendered_def Let_def
      split: option.splits sum.splits prod.splits fetch_result.splits if_splits)

section \<open>Properties of the heap\<close>

lemma take_fold_update:
  assumes "\<forall>x \<in> set xs. n \<le> x"
  shows "take n (fold (\<lambda>x h'. if x < length h' then h'[x := g h' x] else h') xs h) = take n h"
  using assms by (induction xs arbitrary: h) simp_all

lemma handed_to_library_take:
  assumes "n \<le> a" and "\<forall>x \<in> set (array_elements h a). n \<le> x"
  shows "take n (handed_to_library touch a h) = take n h"
  unfolding handed_to_library_def
  by (rule take_fold_update [where g = "\<lambda>h' x. touch (h' ! x)"]) (use assms in auto)

lemma array_elements_last: "array_elements (h @ [ArrayObject xs]) (length h) = xs"
  by (simp add: array_elements_def object_at_def)

lemma array_map_heap: "take (length h) (snd (array_map f a h)) = h"
  by (simp add: array_map_def Let_def)

lemma array_map_fresh:
  "length h \<le> fst (array_map f a h)"
  "x \<in> set (array_elements (snd (array_map f a h)) (fst (array_map f a h))) \<Longrightarrow> length h \<le> x"
proof -
  show "length h \<le> fst (array_map f a h)"
    by (simp add: array_map_def Let_def)
  have "array_elements (snd (array_map f a h)) (fst (array_map f a h))
      = [length h ..< length h + length (array_elements h a)]"
    using array_elements_last [of "h @ map f (array_elements h a)"]
    by (simp add: array_map_def Let_def)
  then show "x \<in> set (array_elements (snd (array_map f a h)) (fst (array_map f a h))) \<Longrightarrow> length h \<le> x"
    by simp
qed

lemma array_filter_heap: "snd (array_filter P a h) = h @ [ArrayObject (filter P (array_elements h a))]"
  by (simp add: array_filter_def)

lemma array_filter_fresh:
  "fst (array_filter P a h) = length h"
  "set (array_elements (snd (array_filter P a h)) (fst (array_filter P a h))) \<subseteq> set (array_elements h a)"
  by (auto simp: array_filter_def array_elements_last)

lemma pipeline_frame:
  "take (length h)
     (handed_to_library touch (fst (array_filter P (fst (array_map f a h)) (snd (array_map f a h))))
        (snd (array_filter P (fst (array_map f a h)) (snd (array_map f a h))))) = h"
  "take (length h) (snd (array_filter P (fst (array_map f a h)) (snd (array_map f a h)))) = h"
proof -
  let ?m = "array_map f a h"
  let ?f = "array_filter P (fst ?m) (snd ?m)"
  have len: "length h \<le> length (snd ?m)"
    by (simp add: array_map_def Let_def)
  show *: "take (length h) (snd ?f) = h"
    using len array_map_heap [of h f a] by (simp add: array_filter_heap)
  have "take (length h) (handed_to_library touch (fst ?f) (snd ?f)) = take (length h) (snd ?f)"
  proof (rule handed_to_library_take)
    show "length h \<le> fst ?f" using len by (simp add: array_filter_fresh(1))
    show "\<forall>x \<in> set (array_elements (snd ?f) (fst ?f)). length h \<le> x"
      using array_filter_fresh(2) array_map_fresh(2) by blast
  qed
  with * show "take (length h) (handed_to_library touch (fst ?f) (snd ?f)) = h" by simp
qed

lemma usage_heap_frame:
  "take (length h) (snd (createTypeUsageChart_updateChart_heap touch pf sel data h)) = h"
  by (simp add: createTypeUsageChart_updateChart_heap_def split_def Let_def pipeline_frame)

lemma rating_heap_frame:
  "take (length h) (snd (createCostRatingChart_updateChart_heap touch pf sel data h)) = h"
  by (simp add: createCostRatingChart_updateChart_heap_def split_def Let_def pipeline_frame)

lemma boxplot_heap_frame:
  "createBoxplotComparison_updateChart_heap touch pf selectedFeature data h = Inr (a, h')
     \<Longrightarrow> take (length h) h' = h"
  by (auto simp: createBoxplotComparison_updateChart_heap_def split_def Let_def pipeline_frame
      split: option.splits)

lemma operator_heap_frame:
  "take (length h) (snd (createOperatorAnalysis_heap touch pf data h)) = h"
  by (simp add: createOperatorAnalysis_heap_def split_def Let_def pipeline_frame)

lemma trend_heap_frame:
  "take (length h) (snd (loadTrendChart_updateChart_heap availability data h)) = h"
  by (simp add: loadTrendChart_updateChart_heap_def array_filter_heap)

lemma on_change_frame: "take (length h) (on_change touch pf data change h) = h"
  by (cases change)
    (auto simp: on_change_def usage_heap_frame rating_heap_frame trend_heap_frame
      boxplot_heap_frame split: sum.splits)

lemma on_changes_frame: "take (length h) (fold (on_change touch pf data) changes h) = h"
proof (induction changes arbitrary: h)
  case Nil
  then show ?case by simp
next
  case (Cons c cs)
  let ?h1 = "on_change touch pf data c h"
  let ?h2 = "fold (on_change touch pf data) cs ?h1"
  have 1: "take (length h) ?h1 = h" by (rule on_change_frame)
  have 2: "take (length ?h1) ?h2 = ?h1" by (rule Cons.IH)
  have "length (take (length h) ?h1) = length h" using 1 by simp
  then have le: "length h \<le> length ?h1" by (simp add: min_def split: if_splits)
  have "take (length h) (take (length ?h1) ?h2) = take (length h) ?h2"
    using le by (simp add: min_def)
  with 1 2 show ?case by simp
qed

text \<open>With a library that changes nothing, the array that \<^verbatim>\<open>updateChart\<close> builds on the heap
  holds the records that \<^verbatim>\<open>processData\<close> computes from the rows of the table.\<close>

lemma handed_to_library_id: "handed_to_library (\<lambda>obj. obj) a h = h"
proof -
  have "fold (\<lambda>x h'. if x < length h' then h'[x := h' ! x] else h') xs h = h" for xs
    by (induction xs) simp_all
  then show ?thesis by (simp add: handed_to_library_def)
qed

lemma objects_of_fresh_range:
  "map (object_at (h @ ys @ r)) [length h ..< length h + length ys] = map Some ys"
proof (rule nth_equalityI)
  show "length (map (object_at (h @ ys @ r)) [length h ..< length h + length ys]) = length (map Some ys)"
    by simp
next
  fix i assume "i < length (map (object_at (h @ ys @ r)) [length h ..< length h + length ys])"
  then have i: "i < length ys" by simp
  then show "map (object_at (h @ ys @ r)) [length h ..< length h + length ys] ! i = map Some ys ! i"
    by (simp add: object_at_def nth_append)
qed


lemma map_filter_contents:
  assumes "array_map f a h = (m, h1)" and "array_filter (\<lambda>x. Q (object_at h1 x)) m h1 = (p, h2)"
  shows "map (object_at h2) (array_elements h2 p) = filter Q (map (Some \<circ> f) (array_elements h a))"
proof -
  let ?xs = "array_elements h a"
  let ?range = "[length h ..< length h + length ?xs]"
  let ?kept = "filter (\<lambda>x. Q (object_at h1 x)) ?range"
  have h1: "h1 = h @ map f ?xs @ [ArrayObject ?range]" and m: "m = length h + length ?xs"
    using assms(1) by (auto simp: array_map_def Let_def)
  have "array_elements ((h @ map f ?xs) @ [ArrayObject ?range]) (length (h @ map f ?xs)) = ?range"
    by (rule array_elements_last)
  then have el: "array_elements h1 m = ?range"
    by (simp add: h1 m)
  have h2: "h2 = h1 @ [ArrayObject ?kept]" and p: "p = length h1"
    using assms(2) el by (auto simp: array_filter_def)
  have kept: "array_elements h2 p = ?kept"
    unfolding h2 p by (rule array_elements_last)
  have len: "length h + length ?xs < length h1"
    by (simp add: h1)
  have same: "object_at h2 x = object_at h1 x" if "x \<in> set ?kept" for x
  proof -
    from that have "x < length h1" using len by auto
    then show ?thesis by (simp add: h2 object_at_def nth_append)
  qed
  have range: "map (object_at h1) ?range = map Some (map f ?xs)"
    using objects_of_fresh_range [of h "map f ?xs" "[ArrayObject ?range]"]
    by (simp only: h1 length_map)
  have "map (object_at h2) ?kept = map (object_at h1) ?kept"
    using same by (rule map_cong [OF refl])
  also have "\<dots> = filter Q (map (object_at h1) ?range)"
    by (simp only: filter_map comp_def)
  also have "\<dots> = filter Q (map (Some \<circ> f) ?xs)"
    by (simp only: range map_map)
  finally show ?thesis by (simp only: kept)
qed


lemma usage_heap_computes_processData:
  assumes "createTypeUsageChart_updateChart_heap (\<lambda>obj. obj) pf sel data h = (processedData, h')"
  shows "map (object_at h') (array_elements h' processedData)
     = map (Some \<circ> UsagePoint)
         (createTypeUsageChart_processData pf sel (map (row_at h) (array_elements h data)))"
proof -
  let ?f = "\<lambda>x. UsagePoint (usage_point_of pf (row_at h x))"
  let ?Q = "\<lambda>obj. case obj of Some (UsagePoint d) \<Rightarrow> usage_accepts sel d | _ \<Rightarrow> False"
  obtain m h1 where 1: "array_map ?f data h = (m, h1)" by (cases "array_map ?f data h")
  obtain p h2 where 2: "array_filter (\<lambda>x. ?Q (object_at h1 x)) m h1 = (p, h2)"
    by (cases "array_filter (\<lambda>x. ?Q (object_at h1 x)) m h1")
  have "processedData = p \<and> h' = h2"
    using assms unfolding createTypeUsageChart_updateChart_heap_def 1 Let_def prod.case 2
    by (simp add: handed_to_library_id)
  moreover have "map (object_at h2) (array_elements h2 p)
      = filter ?Q (map (Some \<circ> ?f) (array_elements h data))"
    using 1 2 by (rule map_filter_contents)
  moreover have "filter ?Q (map (Some \<circ> ?f) xs)
      = map (Some \<circ> UsagePoint) (createTypeUsageChart_processData pf sel (map (row_at h) xs))"
    for xs
    unfolding createTypeUsageChart_processData_def
    by (induction xs) simp_all
  ultimately show ?thesis by simp
qed


lemma processed_objects_are_new:
  "length h \<le> fst (createTypeUsageChart_updateChart_heap touch pf sel data h)"
  "length h \<le> fst (createCostRatingChart_updateChart_heap touch pf sel' data h)"
  "length h \<le> fst (createOperatorAnalysis_heap touch pf data h)"
  "length h \<le> fst (loadTrendChart_updateChart_heap availability data h)"
  by (simp_all add: createTypeUsageChart_updateChart_heap_def
      createCostRatingChart_updateChart_heap_def createOperatorAnalysis_heap_def
      loadTrendChart_updateChart_heap_def split_def Let_def array_filter_fresh(1)
      array_map_def)

text \<open>
  Claim C8. No filter change and no chart update changes the loaded table: after any
  sequence of selector changes, and after each single \<^verbatim>\<open>updateChart\<close>, every object that
  existed before (the array of the table and each of its records) is what it was,
  whatever the charting library does to the data it is handed; the array an update
  builds is a new object.
\<close>

theorem loaded_table_is_never_modified:
  "take (length h) (fold (on_change touch pf data) changes h) = h
   \<and> take (length h) (snd (loadTrendChart_updateChart_heap availability data h)) = h
   \<and> take (length h) (snd (createTypeUsageChart_updateChart_heap touch pf sel data h)) = h
   \<and> take (length h) (snd (createCostRatingChart_updateChart_heap touch pf sel' data h)) = h
   \<and> take (length h) (snd (createOperatorAnalysis_heap touch pf data h)) = h
   \<and> (case createBoxplotComparison_updateChart_heap touch pf selectedFeature data h of
         Inl e \<Rightarrow> True | Inr (processedData, h') \<Rightarrow> take (length h) h' = h)
   \<and> length h \<le> fst (loadTrendChart_updateChart_heap availability data h)
   \<and> length h \<le> fst (createTypeUsageChart_updateChart_heap touch pf sel data h)
   \<and> length h \<le> fst (createCostRatingChart_updateChart_heap touch pf sel' data h)
   \<and> length h \<le> fst (createOperatorAnalysis_heap touch pf data h)"
  using on_changes_frame trend_heap_frame usage_heap_frame rating_heap_frame operator_heap_frame
    boxplot_heap_frame processed_objects_are_new
  by (auto split: sum.splits)

text \<open>
  A run with a library that overwrites everything it is handed: the two records and the
  table's array stay as they are, the new objects of the usage chart are overwritten,
  and the trend chart's new array holds the address of a loaded record.
\<close>

theorem loaded_table_is_never_modified_example:
  "fold (on_change (\<lambda>obj. ArrayObject []) (parse_table [(''5'', Fin 5), (''0.2'', Fin 0.2)]) 2)
     [UsageFilterChanged \<lparr>selectedType = ''L2'', selectedPower = ''all'', selectedCost = ''all'',
        selectedRenewable = ''all'', selectedRange = ''all''\<rparr>,
      AvailabilityChanged ''24/7'']
     [RowObject [(''Charger Type'', ''L2''), (''Usage Stats (avg users/day)'', ''5''),
        (''Is24Hours'', ''True'')],
      RowObject [(''Charger Type'', ''DC''), (''Usage Stats (avg users/day)'', ''5''),
        (''Is24Hours'', ''False'')],
      ArrayObject [0, 1]]
   = [RowObject [(''Charger Type'', ''L2''), (''Usage Stats (avg users/day)'', ''5''),
        (''Is24Hours'', ''True'')],
      RowObject [(''Charger Type'', ''DC''), (''Usage Stats (avg users/day)'', ''5''),
        (''Is24Hours'', ''False'')],
      ArrayObject [0, 1],
      ArrayObject [],
      UsagePoint \<lparr>charger_type = Some ''DC'', usage = Fin 5, is_high_power = False, cost = NaN,
        renewable = None, hours = ''Limited''\<rparr>,
      ArrayObject [3, 4],
      ArrayObject [],
      ArrayObject [0]]"
  using loaded_table_is_never_modified [where touch = "\<lambda>obj. ArrayObject []"
      and pf = "parse_table [(''5'', Fin 5), (''0.2'', Fin 0.2)]" and data = 2]
  by code_simp

end
